(* ===== verification/Prelude.thy ===== *)
theory Prelude
  imports Complex_Main
begin

text \<open>
  Shared vocabulary of the weather-app development: the rule collections the
  component theories add to, exception propagation as a bind on sum types
  (a JavaScript \<open>throw\<close> is an \<open>Inl\<close> that the rest of a \<open>try\<close> block skips),
  and list lemmas about the string scanners used for JavaScript strings.
\<close>

named_theorems js_simps "evaluation rules of the JavaScript semantics used by Weather.jsx"
named_theorems ui_simps "evaluation rules of the Weather component's handlers"

text \<open>JavaScript strings, seen as lists of UTF-16 code units below 256.\<close>

type_synonym js_string = string

subsection \<open>Exceptions as sums\<close>

definition ebind :: "'e + 'a \<Rightarrow> ('a \<Rightarrow> 'e + 'b) \<Rightarrow> 'e + 'b" where
  "ebind m f = (case m of Inl e \<Rightarrow> Inl e | Inr a \<Rightarrow> f a)"

lemma ebind_Inl [simp]: "ebind (Inl e) f = Inl e"
  by (simp add: ebind_def)

lemma ebind_Inr [simp]: "ebind (Inr a) f = f a"
  by (simp add: ebind_def)

lemma ebind_eq_Inr_iff: "ebind m f = Inr b \<longleftrightarrow> (\<exists>a. m = Inr a \<and> f a = Inr b)"
  by (cases m) auto

lemma ebind_eq_Inl_iff:
  "ebind m f = Inl e \<longleftrightarrow> m = Inl e \<or> (\<exists>a. m = Inr a \<and> f a = Inl e)"
  by (cases m) auto

subsection \<open>Scanning strings\<close>

lemma takeWhile_dropWhile_split: "takeWhile P xs @ dropWhile P xs = xs"
  by simp

lemma takeWhile_all_id [simp]: "list_all P xs \<Longrightarrow> takeWhile P xs = xs"
  by (induction xs) auto

lemma dropWhile_all_Nil [simp]: "list_all P xs \<Longrightarrow> dropWhile P xs = []"
  by (induction xs) auto

lemma dropWhile_rev_none: "\<not> P (last xs) \<Longrightarrow> xs \<noteq> [] \<Longrightarrow> dropWhile P (rev xs) = rev xs"
  by (cases xs rule: rev_cases) auto

lemma pair_snd_in_image: "(x, y) \<in> set xs \<Longrightarrow> y \<in> snd ` set xs"
  by force

end
