(* ===== verification/JsValue.thy ===== *)
theory JsValue
  imports Prelude
begin

text \<open>
  The slice of JavaScript that \<open>src/src/components/Weather.jsx\<close> relies on when it
  reads the parsed API response (lines 37, 47 and 50--53): the values
  \<open>response.json()\<close> produces, truthiness (\<open>!city\<close>, \<open>||\<close>), property access
  \<open>a.b\<close> and \<open>a[0]\<close> with its \<open>TypeError\<close> on \<open>undefined\<close> and \<open>null\<close>, and
  \<open>Math.floor\<close> with the \<open>ToNumber\<close> conversion it applies first, including
  the grammar of numeric strings (ECMAScript StringToNumber).
  Numbers are exact reals plus the three special values; IEEE rounding and the
  sign of zero are not modelled.
\<close>

datatype jsnum = Fin real | PosInf | NegInf | NaN

text \<open>
  \<open>JBuiltin k\<close> is a built-in function or object reached through the prototype
  chain under the key \<open>k\<close> (for instance \<open>({}).toString\<close>).
  Objects are the association lists \<open>JSON.parse\<close> builds, in source order.
\<close>

datatype jsval =
    JUndef
  | JNull
  | JBool bool
  | JNum jsnum
  | JStr js_string
  | JArr "jsval list"
  | JObj "(js_string \<times> jsval) list"
  | JBuiltin js_string

datatype js_error = TypeError | SyntaxError | Error js_string

subsection \<open>Truthiness\<close>

fun js_truthy :: "jsval \<Rightarrow> bool" where
  "js_truthy JUndef = False"
| "js_truthy JNull = False"
| "js_truthy (JBool b) = b"
| "js_truthy (JNum (Fin r)) = (r \<noteq> 0)"
| "js_truthy (JNum NaN) = False"
| "js_truthy (JNum PosInf) = True"
| "js_truthy (JNum NegInf) = True"
| "js_truthy (JStr s) = (s \<noteq> [])"
| "js_truthy (JArr xs) = True"
| "js_truthy (JObj kvs) = True"
| "js_truthy (JBuiltin k) = True"

subsection \<open>Decimal digits and canonical index strings\<close>

definition digit_value :: "char \<Rightarrow> nat" where
  "digit_value c =
     (let n = of_char c :: nat in
      if 48 \<le> n \<and> n \<le> 57 then n - 48
      else if 97 \<le> n \<and> n \<le> 102 then n - 87
      else if 65 \<le> n \<and> n \<le> 70 then n - 55
      else 16)"

definition is_radix_digit :: "nat \<Rightarrow> char \<Rightarrow> bool" where
  "is_radix_digit b c \<longleftrightarrow> digit_value c < b"

abbreviation is_dec_digit :: "char \<Rightarrow> bool" where
  "is_dec_digit \<equiv> is_radix_digit 10"

definition digits_value :: "nat \<Rightarrow> js_string \<Rightarrow> nat" where
  "digits_value b ds = foldl (\<lambda>acc c. acc * b + digit_value c) 0 ds"

text \<open>\<open>Number.prototype.toString\<close> on a natural number: its decimal digits.\<close>

fun dec_string :: "nat \<Rightarrow> js_string" where
  "dec_string n =
     (if n < 10 then [char_of (48 + n)]
      else dec_string (n div 10) @ [char_of (48 + n mod 10)])"

declare dec_string.simps [simp del]

text \<open>
  A key is an array index when it is the canonical decimal string of a natural
  number (no sign, no leading zero).
\<close>

definition array_index :: "js_string \<Rightarrow> nat option" where
  "array_index k =
     (if k \<noteq> [] \<and> list_all is_dec_digit k \<and> (k = ''0'' \<or> hd k \<noteq> CHR ''0'')
      then Some (digits_value 10 k) else None)"

subsection \<open>Inherited properties\<close>

text \<open>The string-keyed properties of the built-in prototypes (ECMAScript 2023).\<close>

definition object_proto_keys :: "js_string list" where
  "object_proto_keys =
     [''constructor'', ''__defineGetter__'', ''__defineSetter__'', ''hasOwnProperty'',
      ''__lookupGetter__'', ''__lookupSetter__'', ''isPrototypeOf'',
      ''propertyIsEnumerable'', ''toString'', ''valueOf'', ''__proto__'',
      ''toLocaleString'']"

definition array_proto_keys :: "js_string list" where
  "array_proto_keys =
     [''at'', ''concat'', ''copyWithin'', ''entries'', ''every'', ''fill'', ''filter'',
      ''find'', ''findIndex'', ''findLast'', ''findLastIndex'', ''flat'', ''flatMap'',
      ''forEach'', ''includes'', ''indexOf'', ''join'', ''keys'', ''lastIndexOf'', ''map'',
      ''pop'', ''push'', ''reduce'', ''reduceRight'', ''reverse'', ''shift'', ''slice'',
      ''some'', ''sort'', ''splice'', ''toReversed'', ''toSorted'', ''toSpliced'',
      ''unshift'', ''values'', ''with'']"

definition string_proto_keys :: "js_string list" where
  "string_proto_keys =
     [''anchor'', ''at'', ''big'', ''blink'', ''bold'', ''charAt'', ''charCodeAt'',
      ''codePointAt'', ''concat'', ''endsWith'', ''fixed'', ''fontcolor'', ''fontsize'',
      ''includes'', ''indexOf'', ''isWellFormed'', ''italics'', ''lastIndexOf'', ''link'',
      ''localeCompare'', ''match'', ''matchAll'', ''normalize'', ''padEnd'', ''padStart'',
      ''repeat'', ''replace'', ''replaceAll'', ''search'', ''slice'', ''small'', ''split'',
      ''startsWith'', ''strike'', ''sub'', ''substr'', ''substring'', ''sup'',
      ''toLocaleLowerCase'', ''toLocaleUpperCase'', ''toLowerCase'', ''toUpperCase'',
      ''toWellFormed'', ''trim'', ''trimEnd'', ''trimLeft'', ''trimRight'', ''trimStart'']"

definition number_proto_keys :: "js_string list" where
  "number_proto_keys = [''toExponential'', ''toFixed'', ''toPrecision'']"

fun proto_keys :: "jsval \<Rightarrow> js_string list" where
  "proto_keys (JArr xs) = array_proto_keys @ object_proto_keys"
| "proto_keys (JStr s) = string_proto_keys @ object_proto_keys"
| "proto_keys (JNum n) = number_proto_keys @ object_proto_keys"
| "proto_keys _ = object_proto_keys"

definition inherited :: "jsval \<Rightarrow> js_string \<Rightarrow> jsval" where
  "inherited v k = (if k \<in> set (proto_keys v) then JBuiltin k else JUndef)"

subsection \<open>Property access\<close>

text \<open>
  \<open>v[k]\<close> for a string key \<open>k\<close>: a \<open>TypeError\<close> on \<open>undefined\<close> and
  \<open>null\<close>; own properties first (for a parsed object the last binding of a
  duplicated key wins, as in \<open>JSON.parse\<close>); then the prototype chain.
\<close>

fun js_get :: "jsval \<Rightarrow> js_string \<Rightarrow> js_error + jsval" where
  "js_get JUndef k = Inl TypeError"
| "js_get JNull k = Inl TypeError"
| "js_get (JObj kvs) k =
     Inr (case map_of (rev kvs) k of Some v \<Rightarrow> v | None \<Rightarrow> inherited (JObj kvs) k)"
| "js_get (JArr xs) k =
     Inr (case array_index k of
            Some i \<Rightarrow> if i < length xs then xs ! i else JUndef
          | None \<Rightarrow> if k = ''length'' then JNum (Fin (of_nat (length xs)))
                    else inherited (JArr xs) k)"
| "js_get (JStr s) k =
     Inr (case array_index k of
            Some i \<Rightarrow> if i < length s then JStr [s ! i] else JUndef
          | None \<Rightarrow> if k = ''length'' then JNum (Fin (of_nat (length s)))
                    else inherited (JStr s) k)"
| "js_get v k = Inr (inherited v k)"

text \<open>\<open>v[n]\<close> for a number literal \<open>n\<close>: the key is its decimal string.\<close>

definition js_index :: "jsval \<Rightarrow> nat \<Rightarrow> js_error + jsval" where
  "js_index v n = js_get v (dec_string n)"

text \<open>\<open>undefined\<close> and \<open>null\<close>: the values whose properties cannot be read.\<close>

definition nullish :: "jsval \<Rightarrow> bool" where
  "nullish v \<longleftrightarrow> v = JUndef \<or> v = JNull"

subsection \<open>Numeric strings (StringToNumber)\<close>

definition js_whitespace :: "char \<Rightarrow> bool" where
  "js_whitespace c \<longleftrightarrow> (of_char c :: nat) \<in> {9, 10, 11, 12, 13, 32, 160}"

definition trim_js :: "js_string \<Rightarrow> js_string" where
  "trim_js s = rev (dropWhile js_whitespace (rev (dropWhile js_whitespace s)))"

fun js_neg :: "jsnum \<Rightarrow> jsnum" where
  "js_neg (Fin r) = Fin (- r)"
| "js_neg PosInf = NegInf"
| "js_neg NegInf = PosInf"
| "js_neg NaN = NaN"

definition scale10 :: "real \<Rightarrow> int \<Rightarrow> real" where
  "scale10 x e = (if 0 \<le> e then x * 10 ^ nat e else x / 10 ^ nat (- e))"

definition parse_exponent :: "js_string \<Rightarrow> int option" where
  "parse_exponent s =
     (case s of
        [] \<Rightarrow> Some 0
      | c # t \<Rightarrow>
          if c = CHR ''e'' \<or> c = CHR ''E'' then
            (let sg = (if t \<noteq> [] \<and> hd t = CHR ''-'' then -1 else 1 :: int);
                 ds = (if t \<noteq> [] \<and> (hd t = CHR ''-'' \<or> hd t = CHR ''+'') then tl t else t)
             in if ds \<noteq> [] \<and> list_all is_dec_digit ds
                then Some (sg * int (digits_value 10 ds)) else None)
          else None)"

text \<open>StrUnsignedDecimalLiteral: \<open>Infinity\<close>, \<open>d.d e\<plusminus>d\<close>, \<open>.d e\<plusminus>d\<close>, \<open>d e\<plusminus>d\<close>.\<close>

definition parse_unsigned_decimal :: "js_string \<Rightarrow> jsnum option" where
  "parse_unsigned_decimal s =
     (if s = ''Infinity'' then Some PosInf
      else
        (let ip = takeWhile is_dec_digit s;
             r1 = dropWhile is_dec_digit s;
             dot = (r1 \<noteq> [] \<and> hd r1 = CHR ''.'');
             fp = (if dot then takeWhile is_dec_digit (tl r1) else []);
             r2 = (if dot then dropWhile is_dec_digit (tl r1) else r1)
         in if ip = [] \<and> fp = [] then None
            else map_option
                   (\<lambda>e. Fin (scale10 (of_nat (digits_value 10 ip)
                                       + of_nat (digits_value 10 fp) / 10 ^ length fp) e))
                   (parse_exponent r2)))"

definition parse_decimal :: "js_string \<Rightarrow> jsnum option" where
  "parse_decimal s =
     (case s of
        [] \<Rightarrow> None
      | c # t \<Rightarrow>
          if c = CHR ''+'' then parse_unsigned_decimal t
          else if c = CHR ''-'' then map_option js_neg (parse_unsigned_decimal t)
          else parse_unsigned_decimal s)"

definition radix_of :: "char \<Rightarrow> nat" where
  "radix_of c =
     (if c = CHR ''x'' \<or> c = CHR ''X'' then 16
      else if c = CHR ''o'' \<or> c = CHR ''O'' then 8
      else if c = CHR ''b'' \<or> c = CHR ''B'' then 2
      else 0)"

text \<open>NonDecimalIntegerLiteral: \<open>0x\<close>, \<open>0o\<close>, \<open>0b\<close> followed by digits, no sign.\<close>

definition parse_nondecimal :: "js_string \<Rightarrow> jsnum option" where
  "parse_nondecimal s =
     (case s of
        c0 # c1 # ds \<Rightarrow>
          if c0 = CHR ''0'' \<and> radix_of c1 \<noteq> 0 \<and> ds \<noteq> []
             \<and> list_all (is_radix_digit (radix_of c1)) ds
          then Some (Fin (of_nat (digits_value (radix_of c1) ds))) else None
      | _ \<Rightarrow> None)"

definition str_to_number :: "js_string \<Rightarrow> jsnum" where
  "str_to_number s =
     (let t = trim_js s in
      if t = [] then Fin 0
      else (case parse_nondecimal t of
              Some n \<Rightarrow> n
            | None \<Rightarrow> (case parse_decimal t of Some n \<Rightarrow> n | None \<Rightarrow> NaN)))"

subsection \<open>ToNumber and Math.floor\<close>

text \<open>
  ToPrimitive of a value \<open>JSON.parse\<close> built. An object looks up \<open>toString\<close>
  and \<open>valueOf\<close>; one whose own \<open>"toString"\<close> member is data (never a function)
  has no method that returns a primitive, and the conversion throws a
  \<open>TypeError\<close>. An array converts through \<open>join(",")\<close>, which converts every
  element but \<open>undefined\<close> and \<open>null\<close>, so it throws when one of them does.
\<close>

fun to_string_ok :: "jsval \<Rightarrow> bool"
and elems_to_string_ok :: "jsval list \<Rightarrow> bool" where
  "to_string_ok (JObj kvs) \<longleftrightarrow> ''toString'' \<notin> set (map fst kvs)"
| "to_string_ok (JArr xs) \<longleftrightarrow> elems_to_string_ok xs"
| "to_string_ok _ \<longleftrightarrow> True"
| "elems_to_string_ok [] \<longleftrightarrow> True"
| "elems_to_string_ok (x # xs) \<longleftrightarrow> to_string_ok x \<and> elems_to_string_ok xs"

text \<open>
  The number a value converts to when the conversion does not throw. The empty
  array joins to \<open>""\<close>, a one-element array to the string of its element
  (\<open>""\<close> for \<open>undefined\<close> and \<open>null\<close>, and a number's string converts back to
  the number), and a longer array's string contains a comma, which no numeric
  string does. An object converts through \<open>"[object Object]"\<close> and a built-in
  through its source text.
\<close>

fun number_value :: "jsval \<Rightarrow> jsnum"
and array_to_number :: "jsval list \<Rightarrow> jsnum" where
  "number_value JUndef = NaN"
| "number_value JNull = Fin 0"
| "number_value (JBool b) = Fin (if b then 1 else 0)"
| "number_value (JNum n) = n"
| "number_value (JStr s) = str_to_number s"
| "number_value (JArr xs) = array_to_number xs"
| "number_value (JObj kvs) = NaN"
| "number_value (JBuiltin k) = NaN"
| "array_to_number [] = Fin 0"
| "array_to_number [JUndef] = Fin 0"
| "array_to_number [JNull] = Fin 0"
| "array_to_number [JBool b] = NaN"
| "array_to_number [JNum n] = n"
| "array_to_number [JStr s] = str_to_number s"
| "array_to_number [JArr ys] = array_to_number ys"
| "array_to_number [JObj kvs] = NaN"
| "array_to_number [JBuiltin k] = NaN"
| "array_to_number (x # y # zs) = NaN"

text \<open>ToNumber: the \<open>TypeError\<close> of ToPrimitive, or the number.\<close>

definition js_to_number :: "jsval \<Rightarrow> js_error + jsnum" where
  "js_to_number v = (if to_string_ok v then Inr (number_value v) else Inl TypeError)"

fun js_floor_num :: "jsnum \<Rightarrow> jsnum" where
  "js_floor_num (Fin r) = Fin (of_int \<lfloor>r\<rfloor>)"
| "js_floor_num n = n"

definition math_floor :: "jsval \<Rightarrow> js_error + jsnum" where
  "math_floor v = ebind (js_to_number v) (\<lambda>n. Inr (js_floor_num n))"

text \<open>A number with an integral value: what \<open>Math.floor\<close> returns.\<close>

fun jsnum_integral :: "jsnum \<Rightarrow> bool" where
  "jsnum_integral (Fin r) \<longleftrightarrow> of_int \<lfloor>r\<rfloor> = r"
| "jsnum_integral _ \<longleftrightarrow> True"

subsection \<open>Decimal strings: facts\<close>

lemma dec_string_0 [simp]: "dec_string 0 = ''0''"
  by (subst dec_string.simps) code_simp

subsection \<open>Property access and Math.floor: facts\<close>

lemma js_get_Inl_iff: "js_get v k = Inl e \<longleftrightarrow> nullish v \<and> e = TypeError"
  by (cases v) (auto simp: nullish_def)

lemma js_get_defined: "\<not> nullish v \<Longrightarrow> \<exists>w. js_get v k = Inr w"
  by (cases v) (auto simp: nullish_def)

lemma js_get_Inr_not_nullish: "js_get v k = Inr w \<Longrightarrow> \<not> nullish v"
  by (cases v) (auto simp: nullish_def)

lemma math_floor_Fin:
  "js_to_number v = Inr (Fin x) \<Longrightarrow> math_floor v = Inr (Fin (of_int \<lfloor>x\<rfloor>))"
  by (simp add: math_floor_def)

lemma math_floor_Inr_iff:
  "math_floor v = Inr t \<longleftrightarrow> to_string_ok v \<and> t = js_floor_num (number_value v)"
  by (auto simp: math_floor_def js_to_number_def)

lemma math_floor_integral: "math_floor v = Inr t \<Longrightarrow> jsnum_integral t"
  by (cases "number_value v") (auto simp: math_floor_Inr_iff)

lemmas js_scan_defs [js_simps] = str_to_number_def trim_js_def js_whitespace_def
  parse_nondecimal_def parse_decimal_def parse_unsigned_decimal_def parse_exponent_def
  is_radix_digit_def digit_value_def digits_value_def scale10_def radix_of_def

declare js_index_def [js_simps] math_floor_def [js_simps] js_to_number_def [js_simps] inherited_def [js_simps]
  object_proto_keys_def [js_simps] array_proto_keys_def [js_simps]
  string_proto_keys_def [js_simps] number_proto_keys_def [js_simps]
  array_index_def [js_simps]

end
