(* ===== verification/Icons.thy ===== *)
theory Icons
  imports JsValue
begin

text \<open>
  The icon table of \<open>Weather.jsx\<close> (\<open>allIcons\<close>, lines 18--33) and the lookup
  \<open>allIcons[data.weather[0].icon] || clearIcon\<close> of line 47. \<open>allIcons\<close> is a plain
  object literal, so a key is first converted to a string (ToPropertyKey) and a key
  it does not own is looked up on \<open>Object.prototype\<close>. The imported images are the
  \<open>asset\<close> constructors; every value the lookup can return is truthy (an asset URL
  is a non-empty string, an inherited member is a function or an object), so \<open>||\<close>
  falls back to \<open>clearIcon\<close> exactly when the lookup gives \<open>undefined\<close>.
\<close>

datatype asset =
    SearchPng | ClearPng | CloudsPng | DrizzlePng | RainPng | SnowPng | WindPng | HumidityPng

datatype icon_ref = IconAsset asset | IconBuiltin js_string

definition allIcons :: "(js_string \<times> asset) list" where
  "allIcons =
     [(''01d'', ClearPng), (''01n'', ClearPng),
      (''02d'', CloudsPng), (''02n'', CloudsPng),
      (''03d'', CloudsPng), (''03n'', ClearPng),
      (''04d'', DrizzlePng), (''04n'', DrizzlePng),
      (''09d'', RainPng), (''09n'', RainPng),
      (''10d'', RainPng), (''10n'', RainPng),
      (''13d'', SnowPng), (''13n'', SnowPng)]"

subsection \<open>Property keys\<close>

text \<open>
  The string a value converts to, as far as a lookup can tell it apart:
  \<open>NumberKey\<close> stands for the string of a number (\<open>"NaN"\<close>, \<open>"Infinity"\<close>,
  \<open>"-Infinity"\<close> or a numeric literal) and \<open>OtherKey\<close> for a string with a comma
  (an array of two or more elements) or the source text of a built-in function.
\<close>

datatype prop_key = Key js_string | NumberKey jsnum | OtherKey

fun key_value :: "jsval \<Rightarrow> prop_key"
and array_key :: "jsval list \<Rightarrow> prop_key" where
  "key_value JUndef = Key ''undefined''"
| "key_value JNull = Key ''null''"
| "key_value (JBool b) = Key (if b then ''true'' else ''false'')"
| "key_value (JNum n) = NumberKey n"
| "key_value (JStr s) = Key s"
| "key_value (JArr xs) = array_key xs"
| "key_value (JObj kvs) = Key ''[object Object]''"
| "key_value (JBuiltin k) = OtherKey"
| "array_key [] = Key ''''"
| "array_key [JUndef] = Key ''''"
| "array_key [JNull] = Key ''''"
| "array_key [JBool b] = key_value (JBool b)"
| "array_key [JNum n] = NumberKey n"
| "array_key [JStr s] = Key s"
| "array_key [JArr ys] = array_key ys"
| "array_key [JObj kvs] = Key ''[object Object]''"
| "array_key [JBuiltin k] = OtherKey"
| "array_key (x # y # zs) = OtherKey"

text \<open>
  ToPropertyKey: the \<open>TypeError\<close> of ToPrimitive (see \<open>to_string_ok\<close>), or the
  key.
\<close>

definition to_prop_key :: "jsval \<Rightarrow> js_error + prop_key" where
  "to_prop_key v = (if to_string_ok v then Inr (key_value v) else Inl TypeError)"

text \<open>\<open>allIcons[k]\<close>: \<open>None\<close> is \<open>undefined\<close>.\<close>

fun all_icons_get :: "prop_key \<Rightarrow> icon_ref option" where
  "all_icons_get (Key s) =
     (case map_of allIcons s of
        Some a \<Rightarrow> Some (IconAsset a)
      | None \<Rightarrow> if s \<in> set object_proto_keys then Some (IconBuiltin s) else None)"
| "all_icons_get (NumberKey n) = None"
| "all_icons_get OtherKey = None"

text \<open>Line 47: \<open>allIcons[x] || clearIcon\<close>.\<close>

definition pick_icon :: "jsval \<Rightarrow> js_error + icon_ref" where
  "pick_icon x =
     ebind (to_prop_key x) (\<lambda>k.
       Inr (case all_icons_get k of Some i \<Rightarrow> i | None \<Rightarrow> IconAsset ClearPng))"

text \<open>The shape of the condition codes the weather API sends: two digits, then \<open>d\<close> or \<open>n\<close>.\<close>

definition api_code :: "js_string \<Rightarrow> bool" where
  "api_code c \<longleftrightarrow> length c = 3 \<and> is_dec_digit (c ! 0) \<and> is_dec_digit (c ! 1)
     \<and> (c ! 2 = CHR ''d'' \<or> c ! 2 = CHR ''n'')"

text \<open>
  The icons line 47 can produce: an image the table lists (the fallback \<open>clearIcon\<close>
  is one of them) or an inherited member of \<open>Object.prototype\<close>.
\<close>

fun weather_icon :: "icon_ref \<Rightarrow> bool" where
  "weather_icon (IconAsset a) \<longleftrightarrow> a \<in> snd ` set allIcons"
| "weather_icon (IconBuiltin k) \<longleftrightarrow> k \<in> set object_proto_keys"

subsection \<open>Lookup: facts\<close>

lemma proto_keys_not_api_code: "k \<in> set object_proto_keys \<Longrightarrow> \<not> api_code k"
  by (auto simp: object_proto_keys_def api_code_def)

lemma pick_icon_JStr:
  "pick_icon (JStr c) = Inr (case all_icons_get (Key c) of Some i \<Rightarrow> i | None \<Rightarrow> IconAsset ClearPng)"
  by (simp add: pick_icon_def to_prop_key_def)

lemma pick_icon_Inr_iff:
  "(\<exists>i. pick_icon x = Inr i) \<longleftrightarrow> to_string_ok x"
  by (simp add: pick_icon_def to_prop_key_def)

lemma all_icons_get_weather_icon: "all_icons_get k = Some i \<Longrightarrow> weather_icon i"
proof (cases k)
  case (Key s)
  assume "all_icons_get k = Some i"
  with Key show ?thesis
    by (auto split: option.splits if_splits dest!: map_of_SomeD intro: pair_snd_in_image)
qed simp_all

lemma pick_icon_weather_icon: "pick_icon x = Inr i \<Longrightarrow> weather_icon i"
  by (auto simp: pick_icon_def to_prop_key_def all_icons_get_weather_icon split: option.split if_splits)
    (simp add: allIcons_def)

text \<open>
  C9: a condition code that \<open>allIcons\<close> lists selects the icon the table gives it.
\<close>

theorem pick_icon_table:
  "map_of allIcons c = Some a \<Longrightarrow> pick_icon (JStr c) = Inr (IconAsset a)"
  by (simp add: pick_icon_JStr)

theorem pick_icon_table_witness:
  "map_of allIcons ''03n'' = Some ClearPng \<and> pick_icon (JStr ''03n'') = Inr (IconAsset ClearPng)"
proof -
  have t: "map_of allIcons ''03n'' = Some ClearPng" by (simp add: allIcons_def)
  show ?thesis using t pick_icon_table [OF t] by simp
qed

text \<open>
  C10: a code the table does not list, and that is not the name of a member of
  \<open>Object.prototype\<close>, falls back to the clear-sky icon.
\<close>

theorem pick_icon_fallback:
  "map_of allIcons c = None \<Longrightarrow> c \<notin> set object_proto_keys \<Longrightarrow>
     pick_icon (JStr c) = Inr (IconAsset ClearPng)"
  by (simp add: pick_icon_JStr)

theorem pick_icon_fallback_witness:
  "map_of allIcons ''99x'' = None \<and> ''99x'' \<notin> set object_proto_keys
     \<and> pick_icon (JStr ''99x'') = Inr (IconAsset ClearPng)"
proof -
  have t: "map_of allIcons ''99x'' = None" by (simp add: allIcons_def)
  have p: "''99x'' \<notin> set object_proto_keys" by (simp add: object_proto_keys_def)
  show ?thesis using t p pick_icon_fallback [OF t p] by simp
qed

text \<open>
  C17: every code of the API's shape (two digits and \<open>d\<close> or \<open>n\<close>) selects one of
  the imported images, never an inherited member of \<open>Object.prototype\<close>.
\<close>

theorem pick_icon_api_code: "api_code c \<Longrightarrow> \<exists>a. pick_icon (JStr c) = Inr (IconAsset a)"
  by (auto simp: pick_icon_JStr proto_keys_not_api_code split: option.split)

theorem pick_icon_api_code_witness:
  "api_code ''50d'' \<and> (\<exists>a. pick_icon (JStr ''50d'') = Inr (IconAsset a))"
proof -
  have c: "api_code ''50d''" by (simp add: api_code_def is_radix_digit_def digit_value_def)
  show ?thesis using c pick_icon_api_code [OF c] by simp
qed

end
