(* ===== verification/Search.thy ===== *)
theory Search
  imports Icons
begin

text \<open>
  The Search Controller of \<open>Weather.jsx\<close>: the component state (the two
  \<open>useState\<close> hooks of lines 15--16 and the uncontrolled input behind
  \<open>inputRef\<close>, line 14), the request URL of lines 38--39, the parsing of the
  response (lines 41--55), the state update of the \<open>try\<close> and \<open>catch\<close> branches
  of \<open>search\<close> (lines 49--60) and \<open>clearSearch\<close> (lines 70--74).
  \<open>search\<close> is \<open>async\<close>: its part before \<open>await fetch(url)\<close> is
  \<open>search_request\<close>, its continuation once the fetch has settled is
  \<open>search_settle\<close>. Theory \<open>Controller\<close> interleaves them with other events;
  \<open>search\<close> below is the run in which nothing happens in between.
\<close>

record weather_data =
  humidity :: jsval
  windSpeed :: jsval
  temperature :: jsnum
  location :: jsval
  icon :: icon_ref

text \<open>The values \<open>weatherData\<close> takes: \<open>null\<close>, \<open>false\<close> or the object of line 49.\<close>

datatype wdata = WNull | WFalse | WData weather_data

record weather_ui =
  input_value :: js_string
  weatherData :: wdata
  error :: js_string

definition weather_init :: weather_ui where
  "weather_init = \<lparr>input_value = '''', weatherData = WNull, error = ''''\<rparr>"

subsection \<open>The request\<close>

text \<open>\<open>import.meta.env.VITE_APP_ID\<close> is \<open>undefined\<close> when the variable is not set.\<close>

definition app_id_text :: "js_string option \<Rightarrow> js_string" where
  "app_id_text k = (case k of None \<Rightarrow> ''undefined'' | Some s \<Rightarrow> s)"

definition weather_url :: "js_string \<Rightarrow> js_string option \<Rightarrow> js_string" where
  "weather_url city appid =
     ''https://api.openweathermap.org/data/2.5/weather?q='' @ city
     @ ''&units=metric&appid='' @ app_id_text appid"

text \<open>Lines 37--40: the guard \<open>if (!city) return;\<close>, then the URL that is fetched.\<close>

definition search_request :: "js_string \<Rightarrow> js_string option \<Rightarrow> js_string option" where
  "search_request city appid =
     (if \<not> js_truthy (JStr city) then None else Some (weather_url city appid))"

subsection \<open>The response\<close>

text \<open>
  How \<open>await fetch(url)\<close> settles: rejected (a network error, a \<open>TypeError\<close>), or
  a response with its status and its body, \<open>None\<close> when the body is not JSON and
  \<open>response.json()\<close> rejects with a \<open>SyntaxError\<close>.
\<close>

datatype fetch_outcome = FetchRejected | HttpResponse nat "jsval option"

definition response_ok :: "nat \<Rightarrow> bool" where
  "response_ok st \<longleftrightarrow> 200 \<le> st \<and> st \<le> 299"

text \<open>
  Lines 47--55, in the order JavaScript evaluates them: the icon first (its key
  conversion included), then the fields of the object literal, \<open>Math.floor\<close>
  before \<open>data.name\<close> is read. Every property read may throw, and so may the two
  conversions.
\<close>

definition parse_weather :: "jsval \<Rightarrow> js_error + weather_data" where
  "parse_weather data =
     ebind (js_get data ''weather'') (\<lambda>ws.
     ebind (js_index ws 0) (\<lambda>w0.
     ebind (js_get w0 ''icon'') (\<lambda>ic.
     ebind (pick_icon ic) (\<lambda>i.
     ebind (js_get data ''main'') (\<lambda>m.
     ebind (js_get m ''humidity'') (\<lambda>h.
     ebind (js_get data ''wind'') (\<lambda>wd.
     ebind (js_get wd ''speed'') (\<lambda>sp.
     ebind (js_get data ''main'') (\<lambda>m'.
     ebind (js_get m' ''temp'') (\<lambda>tp.
     ebind (math_floor tp) (\<lambda>t.
     ebind (js_get data ''name'') (\<lambda>nm.
       Inr \<lparr>humidity = h, windSpeed = sp, temperature = t,
            location = nm, icon = i\<rparr>))))))))))))"

text \<open>Lines 40--55: everything in the \<open>try\<close> block after the guard.\<close>

definition search_body :: "fetch_outcome \<Rightarrow> js_error + weather_data" where
  "search_body r =
     (case r of
        FetchRejected \<Rightarrow> Inl TypeError
      | HttpResponse st body \<Rightarrow>
          if \<not> response_ok st then Inl (Error ''City not found'')
          else (case body of None \<Rightarrow> Inl SyntaxError | Some data \<Rightarrow> parse_weather data))"

text \<open>
  Lines 49--60: \<open>setWeatherData\<close> then \<open>setError\<close> on success, the same two
  setters in the \<open>catch\<close> block on any exception. Both updates of a branch
  are applied before the next render (React batches them).
\<close>

definition search_settle :: "fetch_outcome \<Rightarrow> weather_ui \<Rightarrow> weather_ui" where
  "search_settle r s =
     (case search_body r of
        Inr d \<Rightarrow> s\<lparr>weatherData := WData d, error := ''''\<rparr>
      | Inl e \<Rightarrow> s\<lparr>weatherData := WFalse, error := ''City not found''\<rparr>)"

text \<open>
  The developer console output of the continuation: \<open>console.log(data)\<close> (line 45)
  once the body has parsed as JSON, and \<open>console.error\<close> (line 60) in the \<open>catch\<close>
  block. Output only: no state depends on it.
\<close>

datatype console_line = ConsoleLog jsval | ConsoleError js_string

definition search_console :: "fetch_outcome \<Rightarrow> console_line list" where
  "search_console r =
     (let err = [ConsoleError ''Error fetching weather data''] in
      case r of
        FetchRejected \<Rightarrow> err
      | HttpResponse st body \<Rightarrow>
          if \<not> response_ok st then err
          else (case body of
                  None \<Rightarrow> err
                | Some data \<Rightarrow>
                    ConsoleLog data # (case parse_weather data of Inr d \<Rightarrow> [] | Inl e \<Rightarrow> err)))"

text \<open>
  The whole handler when its fetch settles before anything else happens; the
  server is the function from the requested URL to the outcome.
\<close>

definition search ::
  "(js_string \<Rightarrow> fetch_outcome) \<Rightarrow> js_string option \<Rightarrow> js_string \<Rightarrow> weather_ui \<Rightarrow> weather_ui" where
  "search server appid city s =
     (case search_request city appid of
        None \<Rightarrow> s
      | Some url \<Rightarrow> search_settle (server url) s)"

subsection \<open>Clearing\<close>

definition clearSearch :: "weather_ui \<Rightarrow> weather_ui" where
  "clearSearch s = s\<lparr>input_value := '''', weatherData := WNull, error := ''''\<rparr>"

subsection \<open>The display invariant\<close>

text \<open>
  \<open>weatherData\<close> and \<open>error\<close> agree: no error next to \<open>null\<close> or a result, and
  the one message next to \<open>false\<close>.
\<close>

fun ui_inv_data :: "wdata \<Rightarrow> js_string \<Rightarrow> bool" where
  "ui_inv_data WNull e = (e = '''')"
| "ui_inv_data WFalse e = (e = ''City not found'')"
| "ui_inv_data (WData d) e = (e = '''')"

definition ui_inv :: "weather_ui \<Rightarrow> bool" where
  "ui_inv s \<longleftrightarrow> ui_inv_data (weatherData s) (error s)"

subsection \<open>Well-formed results\<close>

text \<open>
  What every result object of lines 49--55 satisfies: the temperature is integral
  (or NaN or infinite), and the icon is one line 47 can produce.
\<close>

definition wf_weather :: "weather_data \<Rightarrow> bool" where
  "wf_weather d \<longleftrightarrow> jsnum_integral (temperature d) \<and> weather_icon (icon d)"

fun wdata_wf :: "wdata \<Rightarrow> bool" where
  "wdata_wf (WData d) \<longleftrightarrow> wf_weather d"
| "wdata_wf _ \<longleftrightarrow> True"

subsection \<open>A sample response\<close>

definition sample_main :: jsval where
  "sample_main = JObj [(''humidity'', JNum (Fin 80)), (''temp'', JNum (Fin (219/10)))]"

definition sample_body :: jsval where
  "sample_body = JObj [(''weather'', JArr [JObj [(''icon'', JStr ''10n'')]]),
     (''main'', sample_main), (''wind'', JObj [(''speed'', JNum (Fin 2))]), (''name'', JStr ''Bergen'')]"

definition sample_weather :: weather_data where
  "sample_weather = \<lparr>humidity = JNum (Fin 80), windSpeed = JNum (Fin 2), temperature = Fin 21,
     location = JStr ''Bergen'', icon = IconAsset RainPng\<rparr>"

subsection \<open>Facts\<close>

lemma search_settle_cases:
  "(\<exists>d. search_body r = Inr d \<and> search_settle r s = s\<lparr>weatherData := WData d, error := ''''\<rparr>) \<or>
   (\<exists>e. search_body r = Inl e \<and>
        search_settle r s = s\<lparr>weatherData := WFalse, error := ''City not found''\<rparr>)"
  by (cases "search_body r") (auto simp: search_settle_def)

lemma search_settle_inv: "ui_inv (search_settle r s)"
  using search_settle_cases [of r s] by (auto simp: ui_inv_def)

lemma search_settle_input [simp]: "input_value (search_settle r s) = input_value s"
  using search_settle_cases [of r s] by auto

lemma ui_inv_clearSearch: "ui_inv (clearSearch s)"
  by (simp add: ui_inv_def clearSearch_def)

lemma ui_inv_input [simp]: "ui_inv (s\<lparr>input_value := v\<rparr>) = ui_inv s"
  by (simp add: ui_inv_def)

lemma search_nonempty:
  "city \<noteq> [] \<Longrightarrow> search server appid city s = search_settle (server (weather_url city appid)) s"
  by (simp add: search_def search_request_def)

lemma parse_weather_Inl: "parse_weather data = Inl e \<Longrightarrow> e = TypeError"
  by (auto simp: parse_weather_def ebind_eq_Inl_iff js_get_Inl_iff js_index_def
      pick_icon_def to_prop_key_def math_floor_def js_to_number_def split: if_splits)

lemma search_body_Inr_iff:
  "search_body r = Inr d \<longleftrightarrow>
     (\<exists>st data. r = HttpResponse st (Some data) \<and> response_ok st \<and> parse_weather data = Inr d)"
  by (auto simp: search_body_def split: fetch_outcome.split option.split)

lemma parse_weather_temperature:
  "parse_weather data = Inr d \<Longrightarrow>
     \<exists>m tp. js_get data ''main'' = Inr m \<and> js_get m ''temp'' = Inr tp \<and> math_floor tp = Inr (temperature d)"
  by (auto simp: parse_weather_def ebind_eq_Inr_iff)

lemma parse_weather_wf: "parse_weather data = Inr d \<Longrightarrow> wf_weather d"
  by (auto simp: parse_weather_def ebind_eq_Inr_iff wf_weather_def
      intro: math_floor_integral pick_icon_weather_icon)

lemma search_settle_wf: "wdata_wf (weatherData (search_settle r s))"
  by (auto simp: search_settle_def search_body_Inr_iff parse_weather_wf split: sum.split)

text \<open>
  C23: the developer console shows the line "Error fetching weather data" exactly
  when the \<open>try\<close> block throws, whatever threw.
\<close>

theorem search_console_error:
  "ConsoleError ''Error fetching weather data'' \<in> set (search_console r)
     \<longleftrightarrow> (\<exists>e. search_body r = Inl e)"
  by (auto simp: search_console_def search_body_def Let_def
      split: fetch_outcome.split option.split sum.split) (metis)

lemma search_console_logs_body:
  "response_ok st \<Longrightarrow> hd (search_console (HttpResponse st (Some data))) = ConsoleLog data"
  by (simp add: search_console_def)

lemmas search_eval_defs [ui_simps] = weather_init_def search_def search_request_def
  weather_url_def app_id_text_def search_settle_def search_body_def response_ok_def
  parse_weather_def pick_icon_def to_prop_key_def allIcons_def clearSearch_def

text \<open>
  C1: for a non-empty city, once \<open>search\<close> has run, exactly one of "a result is
  set" and "an error is set" holds.
\<close>

theorem search_exclusive:
  assumes "city \<noteq> []"
  shows "(\<exists>d. weatherData (search server appid city s) = WData d)
           \<longleftrightarrow> error (search server appid city s) = ''''"
  using search_settle_cases [of "server (weather_url city appid)" s] assms
  by (auto simp: search_nonempty)

theorem search_exclusive_witness:
  "''Oslo'' \<noteq> [] \<and>
   ((\<exists>d. weatherData (search (\<lambda>u. FetchRejected) None ''Oslo'' weather_init) = WData d)
      \<longleftrightarrow> error (search (\<lambda>u. FetchRejected) None ''Oslo'' weather_init) = '''')"
  using search_exclusive [of "''Oslo''" "\<lambda>u. FetchRejected" None weather_init] by simp

text \<open>C4: \<open>search\<close> with the empty city leaves the state as it was.\<close>

theorem search_empty_noop: "search server appid '''' s = s"
  by (simp add: search_def search_request_def)

text \<open>
  C5: \<open>clearSearch\<close> always gives the initial state: empty input, no result, no
  error.
\<close>

theorem clearSearch_idle: "clearSearch s = weather_init"
  by (simp add: clearSearch_def weather_init_def)

text \<open>
  C11: the displayed temperature is the floor of the API's temperature: an integer
  at most the value and within one of it.
\<close>

theorem parse_weather_floor:
  assumes "parse_weather data = Inr d" and "js_get data ''main'' = Inr m"
    and "js_get m ''temp'' = Inr tp" and "js_to_number tp = Inr (Fin x)"
  shows "\<exists>t::int. temperature d = Fin (of_int t) \<and> of_int t \<le> x \<and> x < of_int t + 1"
proof -
  from parse_weather_temperature [OF assms(1)] assms(2,3)
  have "math_floor tp = Inr (temperature d)" by auto
  with assms(4) have "temperature d = Fin (of_int \<lfloor>x\<rfloor>)" by (simp add: math_floor_Fin)
  then show ?thesis by (intro exI [of _ "\<lfloor>x\<rfloor>"]) (simp add: of_int_floor_le)
qed

lemma parse_sample_body: "parse_weather sample_body = Inr sample_weather"
  by (simp add: sample_body_def sample_main_def sample_weather_def ui_simps js_simps)

theorem parse_weather_floor_witness:
  "parse_weather sample_body = Inr sample_weather
   \<and> js_get sample_body ''main'' = Inr sample_main
   \<and> js_get sample_main ''temp'' = Inr (JNum (Fin (219/10)))
   \<and> js_to_number (JNum (Fin (219/10))) = Inr (Fin (219/10))
   \<and> (\<exists>t::int. temperature sample_weather = Fin (of_int t)
         \<and> of_int t \<le> (219/10::real) \<and> (219/10::real) < of_int t + 1)"
proof -
  have a: "js_get sample_body ''main'' = Inr sample_main" by (simp add: sample_body_def)
  have b: "js_get sample_main ''temp'' = Inr (JNum (Fin (219/10)))" by (simp add: sample_main_def)
  have c: "js_to_number (JNum (Fin (219/10))) = Inr (Fin (219/10))" by (simp add: js_to_number_def)
  show ?thesis using parse_sample_body a b c parse_weather_floor [OF parse_sample_body a b c]
    by simp
qed

text \<open>
  C13: every failure of the \<open>try\<close> block, whatever threw, leaves the same state:
  \<open>weatherData\<close> is \<open>false\<close> and the error is "City not found".
\<close>

theorem search_failures_collapse:
  "search_body r1 = Inl e1 \<Longrightarrow> search_body r2 = Inl e2 \<Longrightarrow> search_settle r1 s = search_settle r2 s"
  by (simp add: search_settle_def)

theorem search_failures_collapse_witness:
  "search_body FetchRejected = Inl TypeError
   \<and> search_body (HttpResponse 404 None) = Inl (Error ''City not found'')
   \<and> search_settle FetchRejected weather_init = search_settle (HttpResponse 404 None) weather_init"
proof -
  have a: "search_body FetchRejected = Inl TypeError" by (simp add: search_body_def)
  have b: "search_body (HttpResponse 404 None) = Inl (Error ''City not found'')"
    by (simp add: search_body_def response_ok_def)
  show ?thesis using a b search_failures_collapse [OF a b] by simp
qed

text \<open>
  C14: the response is parsed without an exception exactly when
  \<open>data.weather[0]\<close>, \<open>data.main\<close> and \<open>data.wind\<close> can be read and are neither
  \<open>undefined\<close> nor \<open>null\<close>, and the icon code and the temperature convert to a
  primitive (neither is an object with its own \<open>"toString"\<close> member, nor an array
  holding one); the leaf fields may be missing.
\<close>

theorem parse_weather_Inr_iff:
  "(\<exists>d. parse_weather data = Inr d) \<longleftrightarrow>
     (\<exists>ws w0 ic m tp wd. js_get data ''weather'' = Inr ws \<and> js_index ws 0 = Inr w0 \<and> \<not> nullish w0
        \<and> js_get w0 ''icon'' = Inr ic \<and> to_string_ok ic
        \<and> js_get data ''main'' = Inr m \<and> \<not> nullish m \<and> js_get m ''temp'' = Inr tp \<and> to_string_ok tp
        \<and> js_get data ''wind'' = Inr wd \<and> \<not> nullish wd)"
  (is "?lhs \<longleftrightarrow> ?rhs")
proof
  assume ?lhs
  then show ?rhs
    by (fastforce simp: parse_weather_def ebind_eq_Inr_iff nullish_def math_floor_Inr_iff
        pick_icon_Inr_iff [symmetric])
next
  assume ?rhs
  then obtain ws w0 ic m tp wd where r: "js_get data ''weather'' = Inr ws" "js_index ws 0 = Inr w0"
    "\<not> nullish w0" "js_get w0 ''icon'' = Inr ic" "to_string_ok ic"
    "js_get data ''main'' = Inr m" "\<not> nullish m" "js_get m ''temp'' = Inr tp" "to_string_ok tp"
    "js_get data ''wind'' = Inr wd" "\<not> nullish wd" by blast
  from r(1) have "\<not> nullish data" by (rule js_get_Inr_not_nullish)
  then obtain nm where "js_get data ''name'' = Inr nm" using js_get_defined by blast
  moreover obtain i where "pick_icon ic = Inr i" using r(5) pick_icon_Inr_iff by blast
  moreover have "math_floor tp = Inr (js_floor_num (number_value tp))"
    using r(9) by (simp add: math_floor_Inr_iff)
  moreover obtain h where "js_get m ''humidity'' = Inr h" using r(7) js_get_defined by blast
  moreover obtain sp where "js_get wd ''speed'' = Inr sp" using r(11) js_get_defined by blast
  ultimately show ?lhs using r by (simp add: parse_weather_def)
qed

end
