(* ===== verification/NumText.thy ===== *)
theory NumText
  imports JsValue
begin

text \<open>
  Number::toString (ECMA-262, 6.1.6.1.20), which React applies to a number child
  (\<open>{weatherData.temperature}\<close>, \<open>{weatherData.humidity}\<close>,
  \<open>{weatherData.windSpeed}\<close>, Weather.jsx lines 113, 129 and 136). The model's
  numbers are exact reals standing for the double nearest to them; for a decimal
  with at most 15 significant digits that double prints as the decimal itself, so
  the conversion is exact there: the integers below \<open>10^21\<close> print as their digits,
  and the other decimals with at most 20 places and a magnitude of at least
  \<open>10^-6\<close> print with a point. Outside that range (exponent notation, more digits
  than a double keeps) the result is \<open>None\<close>: not modelled.
\<close>

text \<open>The least number of decimal places of a real, if it has at most 20.\<close>

definition dec_exp :: "real \<Rightarrow> nat option" where
  "dec_exp r = find (\<lambda>j. jsnum_integral (Fin (r * 10 ^ j))) [0..<21]"

definition sig_digits :: "js_string \<Rightarrow> nat" where
  "sig_digits ds = length (dropWhile (\<lambda>c. c = CHR ''0'') (rev ds))"

text \<open>
  The digits of \<open>m / 10^j\<close> (\<open>m > 0\<close>, \<open>j\<close> least): the cases \<open>k \<le> n \<le> 21\<close>,
  \<open>0 < n \<le> 21\<close> and \<open>-6 < n \<le> 0\<close> of the standard, \<open>n\<close> being the position of
  the point.
\<close>

definition digits_text :: "nat \<Rightarrow> nat \<Rightarrow> js_string option" where
  "digits_text m j =
     (let ds = dec_string m; l = length ds in
      if 15 < sig_digits ds then None
      else if j = 0 then (if l \<le> 21 then Some ds else None)
      else if j < l then Some (take (l - j) ds @ CHR ''.'' # drop (l - j) ds)
      else if j - l < 6 then Some (CHR ''0'' # CHR ''.'' # replicate (j - l) (CHR ''0'') @ ds)
      else None)"

fun js_number_to_string :: "jsnum \<Rightarrow> js_string option" where
  "js_number_to_string NaN = Some ''NaN''"
| "js_number_to_string PosInf = Some ''Infinity''"
| "js_number_to_string NegInf = Some ''-Infinity''"
| "js_number_to_string (Fin r) =
     (if r = 0 then Some ''0''
      else case dec_exp \<bar>r\<bar> of
             None \<Rightarrow> None
           | Some j \<Rightarrow> map_option (\<lambda>s. if r < 0 then CHR ''-'' # s else s)
                         (digits_text (nat \<lfloor>\<bar>r\<bar> * 10 ^ j\<rfloor>) j))"

text \<open>The strings the conversion produces for a positive value: digits and a point.\<close>

definition num_text :: "js_string \<Rightarrow> bool" where
  "num_text t \<longleftrightarrow> t \<noteq> [] \<and> is_dec_digit (hd t) \<and> is_dec_digit (last t)
     \<and> list_all (\<lambda>c. is_dec_digit c \<or> c = CHR ''.'') t"

end
