(* ===== verification/View.thy ===== *)
theory View
  imports SearchSpec NumText
begin

text \<open>
  What the component renders (\<open>Weather.jsx\<close> lines 76--146), as far as the state
  decides it: the error paragraph of line 103 (\<open>{error && ...}\<close>) and the body of
  lines 105--144 (the weather panel when \<open>weatherData\<close> is truthy, otherwise the
  prompt when there is no error). The search bar (lines 81--101) is always there and
  is not part of the view record; its handlers are modelled in \<open>Controller\<close>.
  \<open>render_mode\<close> is the display the specification gives each abstract state.
\<close>

datatype view_body = WeatherPanel weather_data | Prompt | NoBody

record view =
  error_line :: "js_string option"
  body :: view_body

definition render :: "weather_ui \<Rightarrow> view" where
  "render s =
     \<lparr>error_line = (if js_truthy (JStr (error s)) then Some (error s) else None),
      body = (case weatherData s of
                WData d \<Rightarrow> WeatherPanel d
              | _ \<Rightarrow> if \<not> js_truthy (JStr (error s)) then Prompt else NoBody)\<rparr>"

fun render_mode :: "ui_mode \<Rightarrow> view" where
  "render_mode Idle = \<lparr>error_line = None, body = Prompt\<rparr>"
| "render_mode (Success d) = \<lparr>error_line = None, body = WeatherPanel d\<rparr>"
| "render_mode (Failure m) = \<lparr>error_line = Some m, body = NoBody\<rparr>"

fun is_panel :: "view_body \<Rightarrow> bool" where
  "is_panel (WeatherPanel d) = True"
| "is_panel _ = False"

text \<open>Which of the three displays a view shows: the error, the weather panel, the prompt.\<close>

definition shown :: "view \<Rightarrow> bool list" where
  "shown v = [error_line v \<noteq> None, is_panel (body v), body v = Prompt]"

subsection \<open>The weather panel\<close>

text \<open>
  Lines 106--141 render the icon and four values of the result as React children.
  A string or a number is text; \<open>undefined\<close>, \<open>null\<close>, booleans and functions
  render nothing; an array renders its elements; an object throws ("Objects are not
  valid as a React child"), and with no error boundary above \<open>Weather\<close> the throw
  unmounts the whole tree.
\<close>

datatype react_error = ObjectNotValidAsChild

datatype child = TextChild js_string | NumberChild jsnum

fun react_children :: "jsval \<Rightarrow> react_error + child list"
and react_children_list :: "jsval list \<Rightarrow> react_error + child list" where
  "react_children JUndef = Inr []"
| "react_children JNull = Inr []"
| "react_children (JBool b) = Inr []"
| "react_children (JNum n) = Inr [NumberChild n]"
| "react_children (JStr s) = Inr [TextChild s]"
| "react_children (JArr xs) = react_children_list xs"
| "react_children (JObj kvs) = Inl ObjectNotValidAsChild"
| "react_children (JBuiltin k) = Inr []"
| "react_children_list [] = Inr []"
| "react_children_list (x # xs) =
     ebind (react_children x) (\<lambda>c. ebind (react_children_list xs) (\<lambda>cs. Inr (c @ cs)))"

record panel =
  panel_icon :: icon_ref
  temp_line :: "child list"
  place_line :: "child list"
  humidity_line :: "child list"
  wind_line :: "child list"

text \<open>The panel, in the order of the JSX: icon, temperature, place, humidity, wind.\<close>

definition render_panel :: "weather_data \<Rightarrow> react_error + panel" where
  "render_panel d =
     ebind (react_children (JNum (temperature d))) (\<lambda>t.
     ebind (react_children (location d)) (\<lambda>l.
     ebind (react_children (humidity d)) (\<lambda>h.
     ebind (react_children (windSpeed d)) (\<lambda>w.
       Inr \<lparr>panel_icon = icon d, temp_line = t @ [TextChild [CHR 0xB0, CHR ''c'']],
            place_line = l, humidity_line = h @ [TextChild '' %''],
            wind_line = w @ [TextChild '' Km/h'']\<rparr>))))"

text \<open>The whole render: the view and, when the panel is shown, its content.\<close>

definition render_page :: "weather_ui \<Rightarrow> react_error + view \<times> panel option" where
  "render_page s =
     (case body (render s) of
        WeatherPanel d \<Rightarrow> ebind (render_panel d) (\<lambda>p. Inr (render s, Some p))
      | _ \<Rightarrow> Inr (render s, None))"

text \<open>
  The text React writes for the children of a line: a string as it is, a number
  through Number::toString (\<open>None\<close> where that is not modelled), concatenated.
\<close>

fun child_text :: "child \<Rightarrow> js_string option" where
  "child_text (TextChild s) = Some s"
| "child_text (NumberChild n) = js_number_to_string n"

definition line_text :: "child list \<Rightarrow> js_string option" where
  "line_text cs = map_option concat (those (map child_text cs))"

definition panel_text :: "panel \<Rightarrow> js_string option list" where
  "panel_text p = map line_text [temp_line p, place_line p, humidity_line p, wind_line p]"

fun has_object :: "jsval \<Rightarrow> bool" where
  "has_object (JObj kvs) = True"
| "has_object (JArr xs) = (\<exists>x \<in> set xs. has_object x)"
| "has_object v = False"

subsection \<open>Facts\<close>

lemma react_children_Inl_iff:
  "(\<exists>e. react_children v = Inl e) \<longleftrightarrow> has_object v"
  "(\<exists>e. react_children_list xs = Inl e) \<longleftrightarrow> (\<exists>x \<in> set xs. has_object x)"
proof (induction v and xs rule: react_children_react_children_list.induct)
  case (10 x xs)
  then show ?case by (auto simp: ebind_eq_Inl_iff) (metis ebind_Inl ebind_Inr sumE)+
qed auto

lemma render_panel_Inl_iff:
  "(\<exists>e. render_panel d = Inl e) \<longleftrightarrow>
     has_object (location d) \<or> has_object (humidity d) \<or> has_object (windSpeed d)"
  using react_children_Inl_iff(1) [of "location d"] react_children_Inl_iff(1) [of "humidity d"]
    react_children_Inl_iff(1) [of "windSpeed d"]
  by (auto simp: render_panel_def ebind_eq_Inl_iff) (metis sumE)+

lemmas view_eval_defs [ui_simps] = render_def render_page_def render_panel_def

lemma render_without_inv:
  "render \<lparr>input_value = '''', weatherData = WData d, error = ''City not found''\<rparr>
     = \<lparr>error_line = Some ''City not found'', body = WeatherPanel d\<rparr>"
  by (simp add: render_def)

text \<open>
  C8: on states satisfying the display invariant, the component renders exactly the
  display the specification gives the abstract state: the prompt for Idle, the
  weather panel for Success, the message alone for Failure.
\<close>

theorem render_refines: "ui_inv s \<Longrightarrow> render s = render_mode (abs_ui s)"
  by (cases "weatherData s") (auto simp: ui_inv_def render_def abs_ui_def)

theorem render_refines_witness:
  "ui_inv (search_settle FetchRejected weather_init)
   \<and> render (search_settle FetchRejected weather_init)
       = render_mode (Failure ''City not found'')"
proof -
  have i: "ui_inv (search_settle FetchRejected weather_init)" by (rule search_settle_inv)
  have a: "abs_ui (search_settle FetchRejected weather_init) = Failure ''City not found''"
    by (simp add: abs_search_settle search_body_def)
  show ?thesis using i render_refines [OF i] a by simp
qed

text \<open>
  C20: rendering throws exactly when the weather panel is shown and its place,
  humidity or wind value is, or contains, an object; the prompt and the error
  message always render.
\<close>

theorem render_page_crash_iff:
  "(\<exists>e. render_page s = Inl e) \<longleftrightarrow>
     (\<exists>d. weatherData s = WData d \<and>
        (has_object (location d) \<or> has_object (humidity d) \<or> has_object (windSpeed d)))"
  by (cases "weatherData s")
     (auto simp: render_page_def render_def ebind_eq_Inl_iff render_panel_Inl_iff [symmetric])

theorem render_page_crash_iff_witness:
  "(\<exists>e. render_page \<lparr>input_value = '''', weatherData = WData \<lparr>humidity = JObj [], windSpeed = JNull,
       temperature = NaN, location = JUndef, icon = IconAsset ClearPng\<rparr>, error = ''''\<rparr> = Inl e)
   \<and> has_object (JObj [])"
  using render_page_crash_iff [of "\<lparr>input_value = '''', weatherData = WData \<lparr>humidity = JObj [],
       windSpeed = JNull, temperature = NaN, location = JUndef, icon = IconAsset ClearPng\<rparr>,
       error = ''''\<rparr>"] by simp

end
