(* ===== verification/Controller.thy ===== *)
theory Controller
  imports View
begin

text \<open>
  The Weather component as an event system. The browser delivers one event at a
  time: the user edits the input (the uncontrolled \<open><input ref={inputRef}>\<close>,
  lines 82--88), clicks the search image (line 93: \<open>search(inputRef.current.value)\<close>),
  clicks the clear image (line 99: \<open>clearSearch\<close>), or one of the outstanding
  \<open>fetch\<close> promises of \<open>search\<close> settles and its continuation (lines 41--61) runs.
  Requests are never cancelled and settle in any order, so \<open>pending\<close> holds every
  request issued and not yet settled. The request number is bookkeeping of the model:
  it names the promise a \<open>Settle\<close> event resolves. The facts: the invariant of every
  reachable state, progress of the outstanding requests, and that the event system
  refines the abstract machine of \<open>SearchSpec\<close> run for run.
\<close>

record app_state =
  ui :: weather_ui
  pending :: "(nat \<times> js_string) list"
  next_req :: nat

datatype event = TypeInput js_string | ClickSearch | Settle nat fetch_outcome | ClickClear

text \<open>
  Lines 64--68: \<open>useEffect(() => { /* search('London') */ }, [])\<close> runs once,
  after the first render. Its body is a comment: it changes no state and issues no
  request.
\<close>

definition mount_effect :: "app_state \<Rightarrow> app_state" where
  "mount_effect a = a"

text \<open>The mounted component: the hooks' initial values (lines 14--16), then the effect.\<close>

definition app_init :: app_state where
  "app_init = mount_effect \<lparr>ui = weather_init, pending = [], next_req = 0\<rparr>"

text \<open>
  One event; \<open>None\<close> when the event cannot happen (a promise that is not
  outstanding cannot settle). \<open>appid\<close> is \<open>import.meta.env.VITE_APP_ID\<close>.
\<close>

fun app_step :: "js_string option \<Rightarrow> app_state \<Rightarrow> event \<Rightarrow> app_state option" where
  "app_step appid a (TypeInput v) = Some (a\<lparr>ui := (ui a)\<lparr>input_value := v\<rparr>\<rparr>)"
| "app_step appid a ClickSearch =
     (case search_request (input_value (ui a)) appid of
        None \<Rightarrow> Some a
      | Some url \<Rightarrow> Some (a\<lparr>pending := pending a @ [(next_req a, url)],
                            next_req := Suc (next_req a)\<rparr>))"
| "app_step appid a (Settle i r) =
     (case map_of (pending a) i of
        None \<Rightarrow> None
      | Some url \<Rightarrow> Some (a\<lparr>ui := search_settle r (ui a),
                            pending := filter (\<lambda>p. fst p \<noteq> i) (pending a)\<rparr>))"
| "app_step appid a ClickClear = Some (a\<lparr>ui := clearSearch (ui a)\<rparr>)"

fun_cases app_step_SettleE: "app_step appid a (Settle i r) = Some a'"
fun_cases app_step_ClickSearchE: "app_step appid a ClickSearch = Some a'"

fun app_run :: "js_string option \<Rightarrow> app_state \<Rightarrow> event list \<Rightarrow> app_state option" where
  "app_run appid a [] = Some a"
| "app_run appid a (e # es) =
     (case app_step appid a e of None \<Rightarrow> None | Some a' \<Rightarrow> app_run appid a' es)"

inductive app_reach :: "js_string option \<Rightarrow> app_state \<Rightarrow> bool" for appid where
  init: "app_reach appid app_init"
| step: "app_reach appid a \<Longrightarrow> app_step appid a e = Some a' \<Longrightarrow> app_reach appid a'"

text \<open>
  The invariant: the display invariant of the component state, and the bookkeeping
  of the outstanding requests (distinct numbers, all below the next one).
\<close>

definition app_inv :: "app_state \<Rightarrow> bool" where
  "app_inv a \<longleftrightarrow> ui_inv (ui a) \<and> distinct (map fst (pending a))
     \<and> (\<forall>p \<in> set (pending a). fst p < next_req a)"

text \<open>
  The abstract event an event of the component is, if any: an edit changes only the
  input, a click on search only issues a request, a settling request is its
  outcome and a click on clear is Clear.
\<close>

fun ctrl_event :: "event \<Rightarrow> spec_event option" where
  "ctrl_event (Settle i r) = Some (outcome_event (search_body r))"
| "ctrl_event ClickClear = Some Clear"
| "ctrl_event (TypeInput v) = None"
| "ctrl_event ClickSearch = None"

text \<open>A session: type a city, search, the request fails, clear.\<close>

definition lima_events :: "event list" where
  "lima_events = [TypeInput ''Lima'', ClickSearch, Settle 0 FetchRejected, ClickClear]"

text \<open>The events that are promise continuations rather than user input.\<close>

fun is_settle :: "event \<Rightarrow> bool" where
  "is_settle (Settle i r) = True"
| "is_settle e = False"

subsection \<open>Facts\<close>

declare mount_effect_def [simp]

lemma app_inv_init: "app_inv app_init"
  by (simp add: app_inv_def app_init_def weather_init_def ui_inv_def)

lemma distinct_map_filter: "distinct (map f xs) \<Longrightarrow> distinct (map f (filter P xs))"
  by (induction xs) auto

lemma app_step_inv: "app_inv a \<Longrightarrow> app_step appid a e = Some a' \<Longrightarrow> app_inv a'"
proof (cases e)
  case ClickSearch
  assume "app_inv a" "app_step appid a e = Some a'"
  with ClickSearch show ?thesis
    by (fastforce simp: app_inv_def split: option.splits)
next
  case (Settle i r)
  assume "app_inv a" "app_step appid a e = Some a'"
  with Settle show ?thesis
    by (fastforce simp: app_inv_def search_settle_inv distinct_map_filter split: option.splits)
qed (fastforce simp: app_inv_def ui_inv_clearSearch)+

lemma app_reach_inv: "app_reach appid a \<Longrightarrow> app_inv a"
proof (induction rule: app_reach.induct)
  case init
  show ?case by (rule app_inv_init)
next
  case (step a e a')
  then show ?case by (blast intro: app_step_inv)
qed

lemma app_run_reach: "app_reach appid a \<Longrightarrow> app_run appid a es = Some a' \<Longrightarrow> app_reach appid a'"
proof (induction es arbitrary: a)
  case Nil
  then show ?case by simp
next
  case (Cons e es)
  then show ?case by (auto split: option.splits intro: app_reach.step)
qed

lemmas app_eval_defs [ui_simps] = app_init_def

lemma app_step_simulates:
  "app_step appid a e = Some a' \<Longrightarrow>
     (case ctrl_event e of None \<Rightarrow> abs_ui (ui a') = abs_ui (ui a)
      | Some ev \<Rightarrow> spec_step (abs_ui (ui a)) ev (abs_ui (ui a')))"
  by (cases e) (auto simp: abs_search_settle spec_step_outcome spec_step.clear split: option.splits)

text \<open>
  C2: in every state the component can reach, through any interleaving of edits,
  clicks and settling requests, \<open>weatherData\<close> and \<open>error\<close> satisfy the display
  invariant: no error next to a result or \<open>null\<close>, the message next to \<open>false\<close>.
\<close>

theorem app_reach_ui_inv: "app_reach appid a \<Longrightarrow> ui_inv (ui a)"
  using app_reach_inv by (simp add: app_inv_def)

theorem app_reach_ui_inv_witness:
  "app_reach None (app_init\<lparr>pending := [(0, weather_url ''Lima'' None)], next_req := 1\<rparr>)
   \<and> ui_inv (ui (app_init\<lparr>pending := [(0, weather_url ''Lima'' None)], next_req := 1\<rparr>))"
proof -
  have s1: "app_step None app_init (TypeInput ''Lima'')
      = Some (app_init\<lparr>ui := weather_init\<lparr>input_value := ''Lima''\<rparr>\<rparr>)"
    by (simp add: app_init_def)
  have s2: "app_step None (app_init\<lparr>ui := weather_init\<lparr>input_value := ''Lima''\<rparr>\<rparr>) ClickSearch
      = Some (app_init\<lparr>ui := weather_init\<lparr>input_value := ''Lima''\<rparr>,
                pending := [(0, weather_url ''Lima'' None)], next_req := 1\<rparr>)"
    by (simp add: app_init_def search_request_def)
  have s3: "app_step None (app_init\<lparr>ui := weather_init\<lparr>input_value := ''Lima''\<rparr>,
                pending := [(0, weather_url ''Lima'' None)], next_req := 1\<rparr>) ClickClear
      = Some (app_init\<lparr>pending := [(0, weather_url ''Lima'' None)], next_req := 1\<rparr>)"
    by (simp add: app_init_def clearSearch_def weather_init_def)
  have r: "app_reach None (app_init\<lparr>pending := [(0, weather_url ''Lima'' None)], next_req := 1\<rparr>)"
    by (rule app_reach.step [OF app_reach.step [OF app_reach.step [OF app_reach.init s1] s2] s3])
  show ?thesis using r app_reach_ui_inv [OF r] by simp
qed

text \<open>
  C15: the last request to settle decides what is shown: after a \<open>Settle\<close>, the
  abstract state is that request's outcome, whatever was shown before and whichever
  request was issued last.
\<close>

theorem settle_last_wins:
  "app_step appid a (Settle i r) = Some a' \<Longrightarrow>
     abs_ui (ui a') = (case search_body r of Inr d \<Rightarrow> Success d | Inl e \<Rightarrow> Failure ''City not found'')"
  by (auto simp: abs_search_settle split: option.splits)

theorem settle_last_wins_witness:
  "app_step None (app_init\<lparr>pending := [(3, ''u'')]\<rparr>) (Settle 3 FetchRejected)
     = Some (app_init\<lparr>ui := search_settle FetchRejected weather_init\<rparr>)
   \<and> abs_ui (search_settle FetchRejected weather_init) = Failure ''City not found''"
proof -
  have s: "app_step None (app_init\<lparr>pending := [(3, ''u'')]\<rparr>) (Settle 3 FetchRejected)
     = Some (app_init\<lparr>ui := search_settle FetchRejected weather_init\<rparr>)"
    by (simp add: app_init_def)
  show ?thesis using s settle_last_wins [OF s] by (simp add: search_body_def app_init_def)
qed

lemma filter_fst_fresh: "k \<notin> fst ` set xs \<Longrightarrow> filter (\<lambda>p. fst p \<noteq> k) xs = xs"
  by (induction xs) auto

text \<open>
  C21: every run of the component is a run of the specification's state machine:
  along any sequence of events, the abstract state moves by the abstract events of
  the settling requests and clears, in their order, and stays put on edits and
  search clicks.
\<close>

theorem app_run_refines:
  "app_run appid a es = Some a' \<Longrightarrow>
     spec_run (abs_ui (ui a)) (List.map_filter ctrl_event es) (abs_ui (ui a'))"
proof (induction es arbitrary: a)
  case Nil
  then show ?case by (simp add: map_filter_simps spec_run.nil)
next
  case (Cons e es)
  then obtain a1 where s: "app_step appid a e = Some a1" and r: "app_run appid a1 es = Some a'"
    by (auto split: option.splits)
  have ih: "spec_run (abs_ui (ui a1)) (List.map_filter ctrl_event es) (abs_ui (ui a'))"
    using Cons.IH [OF r] .
  show ?case using app_step_simulates [OF s] ih
    by (cases "ctrl_event e") (auto simp: map_filter_simps intro: spec_run.cons)
qed

theorem app_run_refines_witness:
  "app_run None app_init lima_events = Some (app_init\<lparr>next_req := 1\<rparr>)
   \<and> spec_run Idle [SearchFailed, Clear] Idle"
proof -
  have r: "app_run None app_init lima_events = Some (app_init\<lparr>next_req := 1\<rparr>)"
    by (simp add: lima_events_def app_init_def search_request_def search_settle_def
        clearSearch_def weather_init_def)
  have "List.map_filter ctrl_event lima_events = [SearchFailed, Clear]"
    by (simp add: lima_events_def map_filter_simps outcome_event_def search_body_def)
  moreover have "abs_ui (ui app_init) = Idle" "abs_ui (ui (app_init\<lparr>next_req := 1\<rparr>)) = Idle"
    by (simp_all add: app_init_def weather_init_def abs_ui_def)
  ultimately show ?thesis using r app_run_refines [OF r] by simp
qed

text \<open>
  C22: in every reachable state a shown result is well formed: its temperature is
  an integer (or NaN or infinite), since it went through \<open>Math.floor\<close>, and its
  icon is an image of the table or an inherited member of \<open>Object.prototype\<close>,
  never the search, wind or humidity image.
\<close>

theorem app_reach_wf: "app_reach appid a \<Longrightarrow> wdata_wf (weatherData (ui a))"
proof (induction rule: app_reach.induct)
  case init
  show ?case by (simp add: app_init_def weather_init_def)
next
  case (step a e a')
  then show ?case
    by (cases e) (auto simp: search_settle_wf clearSearch_def split: option.splits)
qed

theorem app_reach_wf_witness:
  "app_reach None (app_init\<lparr>ui := \<lparr>input_value = ''Bergen'', weatherData = WData sample_weather,
       error = ''''\<rparr>, next_req := 1\<rparr>)
   \<and> wdata_wf (WData sample_weather)"
proof -
  have "app_run None app_init [TypeInput ''Bergen'', ClickSearch,
      Settle 0 (HttpResponse 200 (Some sample_body))]
    = Some (app_init\<lparr>ui := \<lparr>input_value = ''Bergen'', weatherData = WData sample_weather,
       error = ''''\<rparr>, next_req := 1\<rparr>)"
    by (simp add: app_init_def weather_init_def search_request_def search_settle_def
        search_body_def response_ok_def parse_sample_body)
  then have r: "app_reach None (app_init\<lparr>ui := \<lparr>input_value = ''Bergen'',
       weatherData = WData sample_weather, error = ''''\<rparr>, next_req := 1\<rparr>)"
    by (rule app_run_reach [OF app_reach.init])
  show ?thesis using r app_reach_wf [OF r] by simp
qed

lemma length_filter_fst_distinct:
  "distinct (map fst xs) \<Longrightarrow> k \<in> fst ` set xs \<Longrightarrow>
     Suc (length (filter (\<lambda>p. fst p \<noteq> k) xs)) = length xs"
proof (induction xs)
  case (Cons x xs)
  then show ?case by (cases "fst x = k") (auto simp: filter_fst_fresh)
qed simp

lemma app_step_settle_length:
  "app_inv a \<Longrightarrow> app_step appid a (Settle i r) = Some a' \<Longrightarrow>
     Suc (length (pending a')) = length (pending a)"
proof -
  assume i: "app_inv a" and s: "app_step appid a (Settle i r) = Some a'"
  then obtain url where m: "map_of (pending a) i = Some url"
    and a': "pending a' = filter (\<lambda>p. fst p \<noteq> i) (pending a)"
    by (auto split: option.splits)
  have "i \<in> fst ` set (pending a)" using map_of_SomeD [OF m] by (rule rev_image_eqI) simp
  moreover have "distinct (map fst (pending a))" using i by (simp add: app_inv_def)
  ultimately show ?thesis using a' length_filter_fst_distinct by simp
qed

text \<open>
  C16: the promise continuations cannot run forever on their own: every run made
  only of settling requests, from a reachable state, has exactly one step per
  request it finishes, so it is no longer than the number of requests outstanding.
\<close>

theorem settle_runs_terminate:
  "app_reach appid a \<Longrightarrow> app_run appid a es = Some a' \<Longrightarrow> list_all is_settle es \<Longrightarrow>
     length es + length (pending a') = length (pending a)"
proof -
  have "app_inv a \<Longrightarrow> app_run appid a es = Some a' \<Longrightarrow> list_all is_settle es \<Longrightarrow>
          length es + length (pending a') = length (pending a)" for a
  proof (induction es arbitrary: a)
    case (Cons e es)
    then obtain i r a1 where e: "e = Settle i r" and s: "app_step appid a e = Some a1"
      and r: "app_run appid a1 es = Some a'"
      by (cases e) (auto split: option.splits)
    have "app_inv a1" using app_step_inv [OF Cons.prems(1) s] .
    then have "length es + length (pending a') = length (pending a1)"
      using Cons.IH r Cons.prems(3) by simp
    moreover have "Suc (length (pending a1)) = length (pending a)"
      using app_step_settle_length [OF Cons.prems(1)] s e by simp
    ultimately show ?case by simp
  qed simp
  then show "app_reach appid a \<Longrightarrow> app_run appid a es = Some a' \<Longrightarrow> list_all is_settle es \<Longrightarrow>
      length es + length (pending a') = length (pending a)"
    using app_reach_inv by blast
qed

theorem settle_runs_terminate_witness:
  "app_reach None (app_init\<lparr>ui := weather_init\<lparr>input_value := ''Lima''\<rparr>,
       pending := [(0, weather_url ''Lima'' None)], next_req := 1\<rparr>)
   \<and> app_run None (app_init\<lparr>ui := weather_init\<lparr>input_value := ''Lima''\<rparr>,
       pending := [(0, weather_url ''Lima'' None)], next_req := 1\<rparr>) [Settle 0 FetchRejected]
     = Some (app_init\<lparr>ui := search_settle FetchRejected (weather_init\<lparr>input_value := ''Lima''\<rparr>),
         next_req := 1\<rparr>)
   \<and> list_all is_settle [Settle 0 FetchRejected]
   \<and> length [Settle 0 FetchRejected] + length (pending (app_init\<lparr>ui := search_settle FetchRejected
         (weather_init\<lparr>input_value := ''Lima''\<rparr>), next_req := 1\<rparr>))
     = length (pending (app_init\<lparr>ui := weather_init\<lparr>input_value := ''Lima''\<rparr>,
       pending := [(0, weather_url ''Lima'' None)], next_req := 1\<rparr>))"
proof -
  have "app_run None app_init [TypeInput ''Lima'', ClickSearch]
      = Some (app_init\<lparr>ui := weather_init\<lparr>input_value := ''Lima''\<rparr>,
          pending := [(0, weather_url ''Lima'' None)], next_req := 1\<rparr>)"
    by (simp add: app_init_def search_request_def)
  then have a: "app_reach None (app_init\<lparr>ui := weather_init\<lparr>input_value := ''Lima''\<rparr>,
       pending := [(0, weather_url ''Lima'' None)], next_req := 1\<rparr>)"
    by (rule app_run_reach [OF app_reach.init])
  have r: "app_run None (app_init\<lparr>ui := weather_init\<lparr>input_value := ''Lima''\<rparr>,
       pending := [(0, weather_url ''Lima'' None)], next_req := 1\<rparr>) [Settle 0 FetchRejected]
     = Some (app_init\<lparr>ui := search_settle FetchRejected (weather_init\<lparr>input_value := ''Lima''\<rparr>),
         next_req := 1\<rparr>)"
    by (simp add: app_init_def)
  have l: "list_all is_settle [Settle 0 FetchRejected]" by simp
  show ?thesis using a r l settle_runs_terminate [OF a r l] by simp
qed

end
