(* ===== verification/Page.thy ===== *)
theory Page
  imports Controller
begin

text \<open>
  The element tree the component renders (Weather.jsx lines 76--146): elements with
  their tag, the attributes that carry content or behaviour (\<open>src\<close>, \<open>alt\<close>,
  \<open>type\<close>, \<open>placeholder\<close>, \<open>ref\<close> and the \<open>onClick\<close> handlers, as the events of
  theory \<open>Controller\<close> they trigger) and their children; the \<open>className\<close>
  attributes are styling and left out. It is built from \<open>render_page\<close>, which
  decides the displays and evaluates the children.
\<close>

datatype attr = Src icon_ref | Alt js_string | InputType js_string | Placeholder js_string
  | InputRef | OnClick event

datatype node = Elem js_string "attr list" "node list" | Leaf child

text \<open>Lines 81--101: the input and the two buttons, always rendered.\<close>

definition search_bar :: node where
  "search_bar =
     Elem ''div'' []
       [Elem ''input'' [InputRef, InputType ''text'', Placeholder ''Search city...''] [],
        Elem ''img'' [Src (IconAsset SearchPng), Alt ''search'', OnClick ClickSearch] [],
        Elem ''img'' [Src (IconAsset ClearPng), Alt ''clear'', OnClick ClickClear] []]"

text \<open>
  Line 103: \<open>{error && <p>{error}</p>}\<close>; a falsy \<open>error\<close> is \<open>""\<close>, which React
  writes as an empty text node.
\<close>

fun error_nodes :: "js_string option \<Rightarrow> node list" where
  "error_nodes (Some m) = [Elem ''p'' [] [Leaf (TextChild m)]]"
| "error_nodes None = [Leaf (TextChild '''')]"

text \<open>Lines 106--141: the fragment of the weather panel.\<close>

definition panel_nodes :: "panel \<Rightarrow> node list" where
  "panel_nodes p =
     [Elem ''img'' [Src (panel_icon p), Alt ''weather icon''] [],
      Elem ''p'' [] (map Leaf (temp_line p)),
      Elem ''p'' [] (map Leaf (place_line p)),
      Elem ''div'' []
        [Elem ''div'' []
           [Elem ''img'' [Src (IconAsset HumidityPng), Alt ''humidityIcon''] [],
            Elem ''div'' []
              [Elem ''p'' [] (map Leaf (humidity_line p)),
               Elem ''span'' [] [Leaf (TextChild ''Humidity'')]]],
         Elem ''div'' []
           [Elem ''img'' [Src (IconAsset WindPng), Alt ''windIcon''] [],
            Elem ''div'' []
              [Elem ''p'' [] (map Leaf (wind_line p)),
               Elem ''span'' [] [Leaf (TextChild ''Wind Speed'')]]]]]"

text \<open>Lines 105--144: the panel, or \<open>!error && <p>...</p>\<close> (the prompt or nothing).\<close>

fun body_nodes :: "view_body \<Rightarrow> panel option \<Rightarrow> node list" where
  "body_nodes (WeatherPanel d) (Some p) = panel_nodes p"
| "body_nodes Prompt po = [Elem ''p'' [] [Leaf (TextChild ''Enter a city to get weather info'')]]"
| "body_nodes _ po = []"

definition weather_tree :: "weather_ui \<Rightarrow> react_error + node" where
  "weather_tree s =
     ebind (render_page s) (\<lambda>(v, po).
       Inr (Elem ''div'' [] (search_bar # error_nodes (error_line v) @ body_nodes (body v) po)))"

text \<open>The click handlers of a tree, in document order, with the \<open>alt\<close> text of their element.\<close>

fun attr_click :: "attr \<Rightarrow> event option" where
  "attr_click (OnClick e) = Some e"
| "attr_click a = None"

fun attr_alt :: "attr \<Rightarrow> js_string option" where
  "attr_alt (Alt s) = Some s"
| "attr_alt a = None"

fun node_handlers :: "node \<Rightarrow> (js_string \<times> event) list" where
  "node_handlers (Leaf c) = []"
| "node_handlers (Elem tag attrs kids) =
     map (\<lambda>e. (case List.map_filter attr_alt attrs of [] \<Rightarrow> '''' | s # ss \<Rightarrow> s, e))
         (List.map_filter attr_click attrs)
     @ concat (map node_handlers kids)"

subsection \<open>Facts\<close>

lemma node_handlers_leaves [simp]: "concat (map node_handlers (map Leaf cs)) = []"
  by (induction cs) simp_all

lemma error_nodes_handlers [simp]: "concat (map node_handlers (error_nodes m)) = []"
  by (cases m) simp_all

lemma body_nodes_handlers [simp]: "concat (map node_handlers (body_nodes b po)) = []"
  by (cases "(b, po)" rule: body_nodes.cases) (simp_all add: panel_nodes_def)

lemma weather_tree_Inl_iff: "weather_tree s = Inl e \<longleftrightarrow> render_page s = Inl e"
  by (cases "render_page s") (auto simp: weather_tree_def)

text \<open>
  C18: whatever the state, a page that renders offers exactly two click handlers,
  in this order: the image with \<open>alt="search"\<close> runs the search of the input's
  text and the image with \<open>alt="clear"\<close> runs \<open>clearSearch\<close>, the two events of
  the controller.
\<close>

theorem page_controls:
  "weather_tree s = Inr t \<Longrightarrow> node_handlers t = [(''search'', ClickSearch), (''clear'', ClickClear)]"
  by (cases "render_page s")
     (auto simp: weather_tree_def search_bar_def map_filter_simps split: prod.splits)

lemma weather_tree_init:
  "weather_tree weather_init = Inr (Elem ''div'' [] [search_bar, Leaf (TextChild ''''),
    Elem ''p'' [] [Leaf (TextChild ''Enter a city to get weather info'')]])"
  by (simp add: weather_tree_def render_page_def render_def weather_init_def)

theorem page_controls_witness:
  "weather_tree weather_init = Inr (Elem ''div'' [] [search_bar, Leaf (TextChild ''''),
       Elem ''p'' [] [Leaf (TextChild ''Enter a city to get weather info'')]])
   \<and> node_handlers (Elem ''div'' [] [search_bar, Leaf (TextChild ''''),
       Elem ''p'' [] [Leaf (TextChild ''Enter a city to get weather info'')]])
     = [(''search'', ClickSearch), (''clear'', ClickClear)]"
  using weather_tree_init page_controls [OF weather_tree_init] by simp

end
