(* ===== verification/AppShell.thy ===== *)
theory AppShell
  imports Page
begin

text \<open>
  The application shell, \<open>src/src/App.jsx\<close> lines 8--14: the root component renders
  a \<open>div\<close> (its classes are styling) holding one \<open>Weather\<close> element, whose state is
  the \<open>app_state\<close> of theory \<open>Controller\<close> and whose tree is \<open>weather_tree\<close> of
  theory \<open>Page\<close>. There is no error boundary between the two, so an exception
  thrown while \<open>Weather\<close> renders is an exception of \<open>App\<close>: React then unmounts
  the whole tree and the page is left empty.
\<close>

definition App :: "app_state \<Rightarrow> react_error + node" where
  "App a = ebind (weather_tree (ui a)) (\<lambda>t. Inr (Elem ''div'' [] [t]))"

subsection \<open>Facts\<close>

lemma App_Inl_iff: "App a = Inl e \<longleftrightarrow> render_page (ui a) = Inl e"
  by (cases "weather_tree (ui a)") (simp_all add: App_def weather_tree_Inl_iff [symmetric])

text \<open>What the page shows once mounted: the search bar and the prompt, no request outstanding.\<close>

lemma App_mounted:
  "App app_init = Inr (Elem ''div'' [] [Elem ''div'' [] [search_bar, Leaf (TextChild ''''),
      Elem ''p'' [] [Leaf (TextChild ''Enter a city to get weather info'')]]])
   \<and> pending app_init = []"
  by (simp add: App_def app_init_def weather_tree_init)

end
