(* ===== verification/Awaits.thy ===== *)
theory Awaits
  imports Controller
begin

text \<open>
  The continuation of \<open>search\<close> has two \<open>await\<close>s: \<open>fetch(url)\<close> (line 40) and
  \<open>response.json()\<close> (line 44), and other events may run between them. Here a
  request is \<open>Fetching\<close> until its fetch promise settles; a rejected fetch or a
  status that is not ok runs the \<open>catch\<close> block then (lines 41--43, 57--60), an ok
  status makes it \<open>Reading\<close> until the body promise settles, and then the rest of
  the \<open>try\<close> block or the \<open>catch\<close> block runs (lines 44--60). The theory
  \<open>Controller\<close> settles a request in one step; the theorem below shows that the
  two models reach the same component states.
\<close>

datatype phase = Fetching | Reading nat "jsval option"

record fine_state =
  fui :: weather_ui
  fpending :: "(nat \<times> js_string \<times> phase) list"
  fnext :: nat

datatype fine_event = FTypeInput js_string | FClickSearch | FetchDone nat fetch_outcome
  | JsonDone nat | FClickClear

definition fine_init :: fine_state where
  "fine_init = \<lparr>fui = ui app_init, fpending = [], fnext = next_req app_init\<rparr>"

definition fine_remove :: "nat \<Rightarrow> fine_state \<Rightarrow> (nat \<times> js_string \<times> phase) list" where
  "fine_remove i a = filter (\<lambda>p. fst p \<noteq> i) (fpending a)"

fun fine_step :: "js_string option \<Rightarrow> fine_state \<Rightarrow> fine_event \<Rightarrow> fine_state option" where
  "fine_step appid a (FTypeInput v) = Some (a\<lparr>fui := (fui a)\<lparr>input_value := v\<rparr>\<rparr>)"
| "fine_step appid a FClickSearch =
     (case search_request (input_value (fui a)) appid of
        None \<Rightarrow> Some a
      | Some url \<Rightarrow> Some (a\<lparr>fpending := fpending a @ [(fnext a, url, Fetching)],
                            fnext := Suc (fnext a)\<rparr>))"
| "fine_step appid a (FetchDone i r) =
     (case map_of (fpending a) i of
        Some (url, Fetching) \<Rightarrow>
          (case r of
             HttpResponse st bd \<Rightarrow>
               if response_ok st
               then Some (a\<lparr>fpending := map (\<lambda>p. if fst p = i then (i, url, Reading st bd) else p)
                                            (fpending a)\<rparr>)
               else Some (a\<lparr>fui := search_settle r (fui a), fpending := fine_remove i a\<rparr>)
           | FetchRejected \<Rightarrow> Some (a\<lparr>fui := search_settle r (fui a), fpending := fine_remove i a\<rparr>))
      | _ \<Rightarrow> None)"
| "fine_step appid a (JsonDone i) =
     (case map_of (fpending a) i of
        Some (url, Reading st bd) \<Rightarrow>
          Some (a\<lparr>fui := search_settle (HttpResponse st bd) (fui a), fpending := fine_remove i a\<rparr>)
      | _ \<Rightarrow> None)"
| "fine_step appid a FClickClear = Some (a\<lparr>fui := clearSearch (fui a)\<rparr>)"

inductive fine_reach :: "js_string option \<Rightarrow> fine_state \<Rightarrow> bool" for appid where
  init: "fine_reach appid fine_init"
| step: "fine_reach appid a \<Longrightarrow> fine_step appid a e = Some a' \<Longrightarrow> fine_reach appid a'"

text \<open>The request list of the one-step model: the phases forgotten.\<close>

definition coarse :: "fine_state \<Rightarrow> app_state" where
  "coarse a = \<lparr>ui = fui a, pending = map (\<lambda>(i, u, ph). (i, u)) (fpending a), next_req = fnext a\<rparr>"

text \<open>A state of the one-step model as a fine state whose requests are all fetching.\<close>

definition lift :: "app_state \<Rightarrow> fine_state" where
  "lift a = \<lparr>fui = ui a, fpending = map (\<lambda>(i, u). (i, u, Fetching)) (pending a), fnext = next_req a\<rparr>"

subsection \<open>Facts\<close>

lemma map_of_coarse:
  "map_of (map (\<lambda>(i, u, ph). (i, u)) xs) k = map_option fst (map_of xs k)"
  by (induction xs) auto

lemma coarse_filter:
  "map (\<lambda>(i, u, ph). (i, u)) (filter (\<lambda>p. fst p \<noteq> k) xs)
     = filter (\<lambda>p. fst p \<noteq> k) (map (\<lambda>(i, u, ph). (i, u)) xs)"
  by (induction xs) auto

lemma coarse_phase_update:
  "map (\<lambda>(i, u, ph). (i, u)) (map (\<lambda>p. if fst p = k then (k, url, q) else p) xs)
     = map (\<lambda>(i, u, ph). (i, u)) xs"
  if "map_of xs k = Some (url, q0)" "distinct (map fst xs)"
  using that by (induction xs) (auto split: if_splits dest: map_of_SomeD intro: rev_image_eqI)

lemma fine_step_coarse:
  assumes "app_inv (coarse a)" and "fine_step appid a e = Some a'"
  shows "coarse a' = coarse a \<or> (\<exists>e'. app_step appid (coarse a) e' = Some (coarse a'))"
proof (cases e)
  case (FTypeInput v)
  then show ?thesis using assms(2) by (auto simp: coarse_def intro: exI [of _ "TypeInput v"])
next
  case FClickSearch
  then show ?thesis using assms(2)
    by (auto simp: coarse_def split: option.splits intro!: exI [of _ ClickSearch])
next
  case (FetchDone i r)
  then obtain url where m: "map_of (fpending a) i = Some (url, Fetching)"
    using assms(2) by (auto split: option.splits phase.splits)
  have d: "distinct (map fst (fpending a))"
    using assms(1) by (simp add: app_inv_def coarse_def comp_def case_prod_beta)
  show ?thesis
  proof (cases "\<exists>st bd. r = HttpResponse st bd \<and> response_ok st")
    case True
    then show ?thesis using assms(2) FetchDone m d coarse_phase_update [OF m d]
      by (auto simp: coarse_def)
  next
    case False
    then have "app_step appid (coarse a) (Settle i r) = Some (coarse a')"
      using assms(2) FetchDone m
      by (cases r) (auto simp: coarse_def map_of_coarse fine_remove_def coarse_filter)
    then show ?thesis by blast
  qed
next
  case (JsonDone i)
  then obtain url st bd where m: "map_of (fpending a) i = Some (url, Reading st bd)"
    using assms(2) by (auto split: option.splits phase.splits)
  then have "app_step appid (coarse a) (Settle i (HttpResponse st bd)) = Some (coarse a')"
    using assms(2) JsonDone by (auto simp: coarse_def map_of_coarse fine_remove_def coarse_filter)
  then show ?thesis by blast
next
  case FClickClear
  then show ?thesis using assms(2) by (auto simp: coarse_def intro!: exI [of _ ClickClear])
qed

lemma fine_reach_coarse: "fine_reach appid a \<Longrightarrow> app_reach appid (coarse a)"
proof (induction rule: fine_reach.induct)
  case init
  have "coarse fine_init = app_init" by (simp add: coarse_def fine_init_def app_init_def)
  then show ?case by (simp add: app_reach.init)
next
  case (step a e a')
  then show ?case
    using fine_step_coarse [OF app_reach_inv [OF step.IH] step.hyps(2)]
    by (auto intro: app_reach.step)
qed


lemma coarse_lift [simp]: "coarse (lift a) = a"
  by (simp add: coarse_def lift_def comp_def case_prod_beta)

lemma map_of_lift:
  "map_of (map (\<lambda>(i, u). (i, u, Fetching)) xs) k = map_option (\<lambda>u. (u, Fetching)) (map_of xs k)"
  by (induction xs) auto

lemma filter_phase_update:
  "filter (\<lambda>p. fst p \<noteq> k) (map (\<lambda>p. if fst p = k then (k, url, q) else p) xs)
     = filter (\<lambda>p. fst p \<noteq> k) xs"
  by (induction xs) auto

lemma map_of_phase_update:
  "k \<in> fst ` set xs \<Longrightarrow> map_of (map (\<lambda>p. if fst p = k then (k, url, q) else p) xs) k = Some (url, q)"
  by (induction xs) auto

lemma lift_filter:
  "map (\<lambda>(i, u). (i, u, Fetching)) (filter (\<lambda>p. fst p \<noteq> k) xs)
     = filter (\<lambda>p. fst p \<noteq> k) (map (\<lambda>(i, u). (i, u, Fetching)) xs)"
  by (induction xs) auto

lemma lift_settle_reach:
  assumes r: "fine_reach appid (lift a)" and m: "map_of (pending a) i = Some url"
  shows "fine_reach appid (lift (a\<lparr>ui := search_settle o' (ui a),
           pending := filter (\<lambda>p. fst p \<noteq> i) (pending a)\<rparr>))"
proof -
  have mf: "map_of (fpending (lift a)) i = Some (url, Fetching)"
    using m by (simp add: lift_def map_of_lift)
  let ?a' = "lift (a\<lparr>ui := search_settle o' (ui a), pending := filter (\<lambda>p. fst p \<noteq> i) (pending a)\<rparr>)"
  show ?thesis
  proof (cases "\<exists>st bd. o' = HttpResponse st bd \<and> response_ok st")
    case True
    then obtain st bd where o: "o' = HttpResponse st bd" and ok: "response_ok st" by blast
    let ?f1 = "(lift a)\<lparr>fpending := map (\<lambda>p. if fst p = i then (i, url, Reading st bd) else p)
                                        (fpending (lift a))\<rparr>"
    have s1: "fine_step appid (lift a) (FetchDone i o') = Some ?f1" using mf o ok by simp
    have "i \<in> fst ` set (fpending (lift a))" using map_of_SomeD [OF mf] by (rule rev_image_eqI) simp
    then have "map_of (fpending ?f1) i = Some (url, Reading st bd)" by (simp add: map_of_phase_update)
    then have s2: "fine_step appid ?f1 (JsonDone i) = Some ?a'"
      using o filter_phase_update [of i url "Reading st bd" "fpending (lift a)"]
      by (simp add: fine_remove_def lift_def lift_filter)
    show ?thesis by (rule fine_reach.step [OF fine_reach.step [OF r s1] s2])
  next
    case False
    then have "fine_step appid (lift a) (FetchDone i o') = Some ?a'"
      using mf by (cases o') (auto simp: fine_remove_def lift_def lift_filter)
    then show ?thesis by (rule fine_reach.step [OF r])
  qed
qed

lemma app_reach_lift: "app_reach appid a \<Longrightarrow> fine_reach appid (lift a)"
proof (induction rule: app_reach.induct)
  case init
  have "lift app_init = fine_init" by (simp add: lift_def fine_init_def app_init_def)
  then show ?case by (simp add: fine_reach.init)
next
  case (step a e a')
  show ?case
  proof (cases e)
    case (TypeInput v)
    then have "fine_step appid (lift a) (FTypeInput v) = Some (lift a')"
      using step.hyps(2) by (auto simp: lift_def)
    then show ?thesis by (rule fine_reach.step [OF step.IH])
  next
    case ClickSearch
    then have "fine_step appid (lift a) FClickSearch = Some (lift a')"
      using step.hyps(2) by (auto simp: lift_def split: option.splits)
    then show ?thesis by (rule fine_reach.step [OF step.IH])
  next
    case (Settle i o')
    then obtain url where "map_of (pending a) i = Some url"
      and "a' = a\<lparr>ui := search_settle o' (ui a), pending := filter (\<lambda>p. fst p \<noteq> i) (pending a)\<rparr>"
      using step.hyps(2) by (auto split: option.splits)
    then show ?thesis using lift_settle_reach [OF step.IH] by simp
  next
    case ClickClear
    then have "fine_step appid (lift a) FClickClear = Some (lift a')"
      using step.hyps(2) by (auto simp: lift_def)
    then show ?thesis by (rule fine_reach.step [OF step.IH])
  qed
qed

text \<open>
  C7: splitting a request's continuation at its two \<open>await\<close>s changes nothing the
  component can reach: with the phases of the requests forgotten, the states
  reachable when fetches and body reads settle separately, interleaved with every
  other event, are exactly the reachable states of the one-step model.
\<close>

theorem fine_coarse_reach: "coarse ` {a. fine_reach appid a} = {a. app_reach appid a}"
proof
  show "coarse ` {a. fine_reach appid a} \<subseteq> {a. app_reach appid a}"
    using fine_reach_coarse by blast
  show "{a. app_reach appid a} \<subseteq> coarse ` {a. fine_reach appid a}"
  proof
    fix a assume "a \<in> {a. app_reach appid a}"
    then have "fine_reach appid (lift a)" by (simp add: app_reach_lift)
    then show "a \<in> coarse ` {a. fine_reach appid a}" by (metis coarse_lift image_eqI mem_Collect_eq)
  qed
qed

end
