(* ===== verification/Url.thy ===== *)
theory Url
  imports Search
begin

text \<open>
  What the weather server receives for the URL of \<open>Weather.jsx\<close> lines 38--40. The
  string goes to \<open>fetch\<close>, whose URL parser (WHATWG URL Standard) removes ASCII tab
  and newline characters, strips leading and trailing C0 controls and spaces, takes
  the query from the first \<open>?\<close> to the first \<open>#\<close>, and percent-encodes the bytes
  of the special-query percent-encode set. The server reads the query as
  \<open>application/x-www-form-urlencoded\<close>: split at \<open>&\<close>, a name and a value at the
  first \<open>=\<close>, \<open>+\<close> read as a space and \<open>%XX\<close> decoded.
\<close>

subsection \<open>Splitting\<close>

fun split_acc :: "char \<Rightarrow> string \<Rightarrow> string \<Rightarrow> string list" where
  "split_acc c acc [] = [rev acc]"
| "split_acc c acc (x # xs) =
     (if x = c then rev acc # split_acc c [] xs else split_acc c (x # acc) xs)"

definition split_on :: "char \<Rightarrow> string \<Rightarrow> string list" where
  "split_on c s = split_acc c [] s"

subsection \<open>The URL parser of fetch\<close>

definition tab_or_newline :: "char \<Rightarrow> bool" where
  "tab_or_newline c \<longleftrightarrow> (of_char c :: nat) \<in> {9, 10, 13}"

definition c0_or_space :: "char \<Rightarrow> bool" where
  "c0_or_space c \<longleftrightarrow> (of_char c :: nat) \<le> 32"

definition url_trim :: "string \<Rightarrow> string" where
  "url_trim s = rev (dropWhile c0_or_space (rev (dropWhile c0_or_space s)))"

definition url_query :: "string \<Rightarrow> string option" where
  "url_query s =
     (let t = url_trim (filter (\<lambda>c. \<not> tab_or_newline c) s) in
      case dropWhile (\<lambda>c. c \<noteq> CHR ''?'') t of
        [] \<Rightarrow> None
      | _ # q \<Rightarrow> Some (takeWhile (\<lambda>c. c \<noteq> CHR ''#'') q))"

definition query_encoded :: "char \<Rightarrow> bool" where
  "query_encoded c \<longleftrightarrow>
     (let n = of_char c :: nat in n < 33 \<or> 126 < n \<or> n \<in> {34, 35, 39, 60, 62})"

definition hex_char :: "nat \<Rightarrow> char" where
  "hex_char n = ''0123456789ABCDEF'' ! n"

definition pct_encode :: "char \<Rightarrow> string" where
  "pct_encode c = (let n = of_char c :: nat in [CHR ''%'', hex_char (n div 16), hex_char (n mod 16)])"

definition encode_query :: "string \<Rightarrow> string" where
  "encode_query q = concat (map (\<lambda>c. if query_encoded c then pct_encode c else [c]) q)"

subsection \<open>The server's reading of the query\<close>

definition is_hex :: "char \<Rightarrow> bool" where
  "is_hex c \<longleftrightarrow> digit_value c < 16"

fun pct_decode :: "string \<Rightarrow> string" where
  "pct_decode (c # h1 # h2 # rest) =
     (if c = CHR ''%'' \<and> is_hex h1 \<and> is_hex h2
      then char_of (16 * digit_value h1 + digit_value h2) # pct_decode rest
      else c # pct_decode (h1 # h2 # rest))"
| "pct_decode cs = cs"

definition form_decode :: "string \<Rightarrow> string" where
  "form_decode s = pct_decode (map (\<lambda>c. if c = CHR ''+'' then CHR '' '' else c) s)"

definition form_pair :: "string \<Rightarrow> string \<times> string" where
  "form_pair p =
     (form_decode (takeWhile (\<lambda>c. c \<noteq> CHR ''='') p),
      form_decode (case dropWhile (\<lambda>c. c \<noteq> CHR ''='') p of [] \<Rightarrow> [] | _ # v \<Rightarrow> v))"

definition form_params :: "string \<Rightarrow> (string \<times> string) list" where
  "form_params q = map form_pair (filter (\<lambda>p. p \<noteq> []) (split_on CHR ''&'' q))"

definition server_params :: "string \<Rightarrow> (string \<times> string) list" where
  "server_params url = (case url_query url of None \<Rightarrow> [] | Some q \<Rightarrow> form_params (encode_query q))"

definition param_values :: "string \<Rightarrow> (string \<times> string) list \<Rightarrow> string list" where
  "param_values k ps = map snd (filter (\<lambda>p. fst p = k) ps)"

definition url_safe :: "string \<Rightarrow> bool" where
  "url_safe s \<longleftrightarrow> list_all (\<lambda>c. c \<notin> set ''&#+%'' \<and> \<not> tab_or_newline c) s"

subsection \<open>Facts\<close>

lemma below16_all: "n < (16::nat) \<Longrightarrow> (\<forall>k \<in> set [0..<16]. P k) \<Longrightarrow> P n"
  by simp

lemma hex_char_value: "n < 16 \<Longrightarrow> digit_value (hex_char n) = n \<and> is_hex (hex_char n)"
  by (erule below16_all) (simp add: upt_rec hex_char_def digit_value_def is_hex_def)

lemma hex_char_plain: "n < 16 \<Longrightarrow> hex_char n \<notin> set ''&#+%'' \<and> \<not> query_encoded (hex_char n)"
  by (erule below16_all) (simp add: upt_rec hex_char_def query_encoded_def)

lemma pct_decode_plain: "c \<noteq> CHR ''%'' \<Longrightarrow> pct_decode (c # xs) = c # pct_decode xs"
  by (cases xs rule: pct_decode.cases) auto

lemma of_char_hex_digits: "(of_char c :: nat) div 16 < 16 \<and> (of_char c :: nat) mod 16 < 16"
  using nat_of_char_less_256 [of c] by (simp add: div_less_iff_less_mult)

lemma pct_decode_pct_encode: "pct_decode (pct_encode c @ xs) = c # pct_decode xs"
proof -
  let ?n = "of_char c :: nat"
  have "16 * digit_value (hex_char (?n div 16)) + digit_value (hex_char (?n mod 16)) = ?n"
    and "is_hex (hex_char (?n div 16))" and "is_hex (hex_char (?n mod 16))"
    using hex_char_value of_char_hex_digits [of c] by simp_all
  then show ?thesis by (simp add: pct_encode_def Let_def)
qed

lemma encode_query_append [simp]: "encode_query (xs @ ys) = encode_query xs @ encode_query ys"
  by (simp add: encode_query_def)

lemma encode_query_Nil [simp]: "encode_query [] = []"
  by (simp add: encode_query_def)

lemma encode_query_Cons:
  "encode_query (c # xs) = (if query_encoded c then pct_encode c else [c]) @ encode_query xs"
  by (simp add: encode_query_def)

lemma pct_encode_plain: "set (pct_encode c) \<inter> set ''&#+'' = {}"
  using hex_char_plain [of "of_char c div 16"] hex_char_plain [of "of_char c mod 16"]
    of_char_hex_digits [of c]
  by (auto simp: pct_encode_def Let_def)


lemma split_acc_append: "c \<notin> set xs \<Longrightarrow> split_acc c acc (xs @ ys) = split_acc c (rev xs @ acc) ys"
  by (induction xs arbitrary: acc) auto

lemma split_acc_free: "c \<notin> set xs \<Longrightarrow> split_acc c acc xs = [rev acc @ xs]"
  using split_acc_append [of c xs acc "[]"] by simp

lemma encode_query_free:
  assumes "CHR ''+'' \<notin> set s" and "CHR ''&'' \<notin> set s"
  shows "CHR ''+'' \<notin> set (encode_query s) \<and> CHR ''&'' \<notin> set (encode_query s)"
  using assms pct_encode_plain by (induction s) (auto simp: encode_query_Cons)

lemma pct_decode_encode_query: "CHR ''%'' \<notin> set s \<Longrightarrow> pct_decode (encode_query s) = s"
proof (induction s)
  case Nil
  then show ?case by (simp add: encode_query_def)
next
  case (Cons c s)
  then have "c \<noteq> CHR ''%''" and "pct_decode (encode_query s) = s" by auto
  then show ?case
    by (simp add: encode_query_Cons pct_decode_pct_encode pct_decode_plain)
qed

lemma form_decode_encode_query:
  "CHR ''%'' \<notin> set s \<Longrightarrow> CHR ''+'' \<notin> set s \<Longrightarrow> CHR ''&'' \<notin> set s \<Longrightarrow>
     form_decode (encode_query s) = s"
proof -
  assume a: "CHR ''%'' \<notin> set s" "CHR ''+'' \<notin> set s" "CHR ''&'' \<notin> set s"
  then have "CHR ''+'' \<notin> set (encode_query s)" using encode_query_free by blast
  then have "map (\<lambda>c. if c = CHR ''+'' then CHR '' '' else c) (encode_query s) = encode_query s"
    by (auto intro: map_idI)
  with a show ?thesis by (simp add: form_decode_def pct_decode_encode_query)
qed

lemma url_safe_chars: "url_safe s \<Longrightarrow> c \<in> set s \<Longrightarrow> c \<notin> set ''&#+%'' \<and> \<not> tab_or_newline c"
  by (auto simp: url_safe_def list_all_iff)

lemma url_query_split:
  assumes "CHR ''?'' \<notin> set p" "CHR ''#'' \<notin> set r"
    and "\<forall>c \<in> set (p @ CHR ''?'' # r). \<not> tab_or_newline c"
    and "p \<noteq> []" "\<not> c0_or_space (hd p)" "r \<noteq> []" "\<not> c0_or_space (last r)"
  shows "url_query (p @ CHR ''?'' # r) = Some r"
proof -
  let ?u = "p @ CHR ''?'' # r"
  have f: "filter (\<lambda>c. \<not> tab_or_newline c) ?u = ?u" using assms(3) by simp
  have "\<not> c0_or_space (hd ?u)" and "\<not> c0_or_space (last ?u)" using assms(4-7) by simp_all
  then have t: "url_trim ?u = ?u"
    using dropWhile_rev_none [of c0_or_space ?u] by (cases ?u) (simp_all add: url_trim_def)
  have "dropWhile (\<lambda>c. c \<noteq> CHR ''?'') ?u = CHR ''?'' # r"
    using assms(1) by (simp add: dropWhile_append dropWhile_eq_Nil_conv)
  moreover have "takeWhile (\<lambda>c. c \<noteq> CHR ''#'') r = r"
    using assms(2) by (auto simp: takeWhile_eq_all_conv)
  ultimately show ?thesis using f t by (simp add: url_query_def)
qed

lemma form_pair_field: "form_pair (k @ CHR ''='' # v) = (form_decode k, form_decode v)"
  if "CHR ''='' \<notin> set k"
  using that by (simp add: form_pair_def takeWhile_append dropWhile_append takeWhile_eq_all_conv)

lemma form_decode_plain_word: "list_all (\<lambda>c. c \<noteq> CHR ''+'' \<and> c \<noteq> CHR ''%'') w \<Longrightarrow> form_decode w = w"
proof (induction w)
  case Nil
  then show ?case by (simp add: form_decode_def)
next
  case (Cons c w)
  then show ?case by (simp add: form_decode_def pct_decode_plain)
qed

lemma form_params_request:
  assumes "url_safe city" "url_safe key"
  shows "form_params (encode_query (''q='' @ city @ ''&units=metric&appid='' @ key))
           = [(''q'', city), (''units'', ''metric''), (''appid'', key)]"
proof -
  have c: "CHR ''%'' \<notin> set city" "CHR ''+'' \<notin> set city" "CHR ''&'' \<notin> set city"
    using url_safe_chars [OF assms(1)] by auto
  have k: "CHR ''%'' \<notin> set key" "CHR ''+'' \<notin> set key" "CHR ''&'' \<notin> set key"
    using url_safe_chars [OF assms(2)] by auto
  have enc: "encode_query (''q='' @ city @ ''&units=metric&appid='' @ key)
      = ''q='' @ encode_query city @ ''&units=metric&appid='' @ encode_query key"
    by (simp add: encode_query_def query_encoded_def)
  have sp: "split_on CHR ''&'' (''q='' @ encode_query city @ ''&units=metric&appid='' @ encode_query key)
      = [''q='' @ encode_query city, ''units=metric'', ''appid='' @ encode_query key]"
    using encode_query_free c(2,3) encode_query_free k(2,3)
    by (simp add: split_on_def split_acc_append split_acc_free)
  have "form_pair (''q='' @ encode_query city) = (''q'', city)"
    using form_pair_field [of "''q''" "encode_query city"] form_decode_encode_query [OF c]
    by (simp add: form_decode_plain_word)
  moreover have "form_pair (''appid='' @ encode_query key) = (''appid'', key)"
    using form_pair_field [of "''appid''" "encode_query key"] form_decode_encode_query [OF k]
    by (simp add: form_decode_plain_word)
  moreover have "form_pair ''units=metric'' = (''units'', ''metric'')"
    using form_pair_field [of "''units''" "''metric''"] by (simp add: form_decode_plain_word)
  ultimately show ?thesis by (simp only: form_params_def enc sp) simp
qed

text \<open>
  C19: a city and an API key free of \<open>& # + %\<close>, tab and newline (the key non-empty
  and not ending in a space or control character) reach the server intact: it reads
  exactly \<open>q\<close> as the city, \<open>units\<close> as \<open>metric\<close> and \<open>appid\<close> as the key.
\<close>

theorem server_params_weather_url:
  assumes "url_safe city" "url_safe key" "key \<noteq> []" "\<not> c0_or_space (last key)"
  shows "server_params (weather_url city (Some key))
           = [(''q'', city), (''units'', ''metric''), (''appid'', key)]"
proof -
  let ?q = "''q='' @ city @ ''&units=metric&appid='' @ key"
  have u: "weather_url city (Some key)
      = ''https://api.openweathermap.org/data/2.5/weather'' @ CHR ''?'' # ?q"
    by (simp add: weather_url_def app_id_text_def)
  have "\<forall>c \<in> set city \<union> set key. c \<notin> set ''&#+%'' \<and> \<not> tab_or_newline c"
    using url_safe_chars [OF assms(1)] url_safe_chars [OF assms(2)] by blast
  then have "\<forall>c \<in> set (''https://api.openweathermap.org/data/2.5/weather'' @ CHR ''?'' # ?q).
      \<not> tab_or_newline c" and "CHR ''#'' \<notin> set ?q"
    by (auto simp: tab_or_newline_def)
  moreover have "\<not> c0_or_space (last ?q)" using assms(3,4) by simp
  ultimately have "url_query (weather_url city (Some key)) = Some ?q"
    unfolding u by (intro url_query_split) (simp_all add: c0_or_space_def)
  then show ?thesis
    unfolding server_params_def by (simp only: option.case form_params_request [OF assms(1,2)])
qed

theorem server_params_weather_url_witness:
  "url_safe ''New York'' \<and> url_safe ''k1'' \<and> ''k1'' \<noteq> [] \<and> \<not> c0_or_space (last ''k1'')
   \<and> server_params (weather_url ''New York'' (Some ''k1''))
       = [(''q'', ''New York''), (''units'', ''metric''), (''appid'', ''k1'')]"
proof -
  have a: "url_safe ''New York''" "url_safe ''k1''" "''k1'' \<noteq> []" "\<not> c0_or_space (last ''k1'')"
    by (simp_all add: url_safe_def tab_or_newline_def c0_or_space_def)
  show ?thesis using a server_params_weather_url [OF a] by simp
qed

end
