(* ===== verification/Spec2Isabelle.thy ===== *)
theory Spec2Isabelle
  imports AppShell Awaits Url
begin

text \<open>
  \<^bold>\<open>A verification development for the weather widget (ar7ab/weather-app).\<close>

  \<^bold>\<open>The program.\<close> \<open>src/src/App.jsx\<close> is a shell that mounts one React
  component, \<open>Weather\<close> (\<open>src/src/components/Weather.jsx\<close>). The component keeps
  two state hooks, \<open>weatherData\<close> (\<open>null\<close>, \<open>false\<close> or a result object) and
  \<open>error\<close> (a string), and an uncontrolled text input reached through \<open>inputRef\<close>.
  Clicking the search image calls the \<open>async\<close> function \<open>search\<close> with the input's
  text: it returns at once on an empty string, otherwise it fetches the
  OpenWeatherMap URL for the city, and when the fetch settles it either parses the
  JSON response (choosing an icon from the table \<open>allIcons\<close>) and stores the result
  with an empty error, or, on any exception, stores \<open>false\<close> and "City not found".
  Clicking the clear image calls \<open>clearSearch\<close>, which empties the input and resets
  both hooks. The render shows the error paragraph when \<open>error\<close> is non-empty, the
  weather panel when \<open>weatherData\<close> is truthy, and the prompt otherwise. Requests
  are never cancelled: several may be outstanding and they settle in any order.

  \<^bold>\<open>The theories.\<close>
  \<^item> \<open>Prelude\<close>: the rule collections \<open>js_simps\<close> and \<open>ui_simps\<close>, exception
    propagation \<open>ebind\<close> on \<open>js_error + 'a\<close>, list lemmas for string scanning.
  \<^item> \<open>JsValue\<close>: the JavaScript the component relies on: the values
    \<open>response.json()\<close> yields (\<open>jsval\<close>, numbers \<open>jsnum\<close> as exact reals with
    NaN and the infinities), truthiness (\<open>js_truthy\<close>), property access
    (\<open>js_get\<close>, \<open>js_index\<close>: own properties, then the built-in prototypes, and a
    \<open>TypeError\<close> on \<open>undefined\<close>/\<open>null\<close>), ToPrimitive's \<open>TypeError\<close> for
    a parsed object with its own \<open>"toString"\<close> member, or an array holding one
    (\<open>to_string_ok\<close>), \<open>ToNumber\<close> with the full grammar of numeric strings
    (\<open>js_to_number\<close>, \<open>str_to_number\<close>) and \<open>Math.floor\<close> (\<open>math_floor\<close>).
  \<^item> \<open>NumText\<close>: Number::toString (\<open>js_number_to_string\<close>), which React applies
    to the numbers of the panel, for the decimals of at most 15 significant digits.
  \<^item> \<open>Icons\<close>: \<open>allIcons\<close> (Weather.jsx lines 18--33) and line 47's lookup
    \<open>allIcons[k] || clearIcon\<close> (\<open>pick_icon\<close>, with the key conversion
    \<open>to_prop_key\<close>, which throws where ToPrimitive does, and the inherited
    members of \<open>Object.prototype\<close>).
  \<^item> \<open>Search\<close>: the component state (record \<open>weather_ui\<close>: \<open>input_value\<close>,
    \<open>weatherData\<close>, \<open>error\<close>), the URL (\<open>weather_url\<close>, lines 38--39), the part of
    \<open>search\<close> before the \<open>await\<close> (\<open>search_request\<close>, line 37), the parse of lines
    47--55 (\<open>parse_weather\<close>), the whole \<open>try\<close> block (\<open>search_body\<close>), the two
    branches' state updates (\<open>search_settle\<close>, lines 49--60), the sequential
    composition \<open>search\<close>, \<open>clearSearch\<close> (lines 70--74), the console output of
    lines 45 and 60 (\<open>search_console\<close>), the display invariant \<open>ui_inv\<close> and the
    well-formedness of results \<open>wf_weather\<close>.
  \<^item> \<open>SearchSpec\<close>: the specification's abstract machine (Idle, Success, Failure;
    inductive \<open>spec_step\<close> and its runs \<open>spec_run\<close>), the abstraction
    \<open>abs_ui\<close> and the refinement lemmas.
  \<^item> \<open>View\<close>: \<open>render\<close> (lines 103--144), the display \<open>render_mode\<close> the
    specification gives each abstract state, and the weather panel's children as
    React renders them (\<open>react_children\<close>, \<open>render_panel\<close>, \<open>render_page\<close>,
    lines 106--141): text and numbers render, an object throws; \<open>panel_text\<close>
    is the text of the four lines.
  \<^item> \<open>Controller\<close>: the component as an event system: edits, clicks (lines 93 and
    99) and settling fetches interleave freely (\<open>app_step\<close>, \<open>app_run\<close>, inductive
    \<open>app_reach\<close>); \<open>pending\<close> holds the outstanding requests, and
    \<open>ctrl_event\<close> names the abstract event of each event; the state starts
    after the mount effect of lines 64--68 (\<open>mount_effect\<close>, \<open>app_init\<close>).
  \<^item> \<open>Page\<close>: the element tree of lines 76--146 (\<open>weather_tree\<close>): the search
    bar with the input and the two images and their \<open>onClick\<close> events, the error
    paragraph, the panel with its labels, or the prompt, built on \<open>render_page\<close>.
  \<^item> \<open>AppShell\<close>: \<open>App\<close> (App.jsx lines 8--14), the root \<open>div\<close> holding
    \<open>Weather\<close>'s tree, with no error boundary between them.
  \<^item> \<open>Awaits\<close>: the event system with each request's continuation split at its
    two \<open>await\<close>s (\<open>fine_step\<close>: a fetch promise settling, then the body
    promise), and the projection \<open>coarse\<close> to the one-step model.
  \<^item> \<open>Url\<close>: what the server receives for the URL: \<open>fetch\<close>'s URL parser
    (\<open>url_query\<close>, \<open>encode_query\<close>: tab and newline removed, the query up to the
    first \<open>#\<close>, percent-encoding) and the server's reading of the query as form
    data (\<open>server_params\<close>, modelled from the request contract of the
    specification).
  \<^item> this theory: the properties that span the components.

  \<^bold>\<open>What is proved.\<close> After a search of a non-empty city exactly one of result and
  error is set (C1); the display invariant holds in every reachable state of the
  event system, by rule induction (C2), so the render always shows exactly one of
  prompt, panel and message (C3); the empty search is a no-op and clearing resets
  (C4, C5); the search handler refines the abstract machine and the render is the
  specification's display (C6, C8); settling a request in one step, as
  \<open>Controller\<close> does, loses nothing: with the fetch and the body read as separate
  steps interleaved with everything else, the same states are reachable (C7). The
  icon lookup, its fallback and its behaviour on the API's code shape (C9, C10,
  C17); the temperature is the floor (C11). A status outside 200--299 fails
  whatever the body (C12); every failure leaves the same state (C13) and the
  console reports exactly the failures (C23); the parse succeeds exactly when the
  intermediate objects can be read and the icon code and temperature convert to
  primitives (C14). The last request to settle decides the display (C15); a run
  of settling requests alone has one step per outstanding request, so the promise
  continuations cannot run forever (C16); every run of the event system is a run
  of the abstract machine, edits and search clicks being stutter steps (C21); a
  shown result always has an integral temperature and an icon line 47 can produce
  (C22). Every rendered page has exactly the search and clear handlers of the
  controller (C18); a city and key without \<open>& # + %\<close>, tab and newline reach the
  server intact (C19); the render throws exactly when a shown panel value
  contains an object (C20).

  \<^bold>\<open>Findings.\<close> A response with the leaf fields missing is shown as a success with
  \<open>undefined\<close> and NaN values, not treated as a failure as the specification says
  (C14 asks nothing of the leaves); a clear while a request is outstanding is
  undone when that request settles, and responses that settle out of order show a
  city other than the one typed (C15: the last to settle wins, whatever was typed
  or cleared since); the table shows clouds for \<open>03d\<close> but a clear sky for
  \<open>03n\<close> (the witness of C9), falls back to the clear sky for the thunderstorm and
  mist codes (C10), and a key naming a member of \<open>Object.prototype\<close> selects that
  member instead of an image (excluded by C10's hypothesis); the city is
  interpolated without URL-encoding, so \<open>&\<close> injects parameters and \<open>#\<close> drops
  the units and the key (excluded by C19's hypothesis), and a missing
  \<open>VITE_APP_ID\<close> sends \<open>appid=undefined\<close>; a 200 response whose
  \<open>main.humidity\<close> is an object passes the \<open>try\<close> block and then crashes the
  render and the \<open>App\<close> shell with it (C20), which the specification's "never
  crash" and "never propagate to the surrounding application shell" exclude.

  \<^bold>\<open>Choices and limits.\<close> Numbers are exact reals: IEEE-754 rounding and the sign
  of zero are not modelled, so \<open>Math.floor\<close> is the exact floor. Strings are lists
  of code units below 256; the whitespace StringToNumber trims is the Latin-1 part
  of JavaScript's. React batches the two setters of a branch, so each branch's
  update is one step; React 18 applies the updates of an \<open>async\<close> continuation
  together, and with an older React the two setters would render one after the
  other. No fuel is needed: the code has no loops, every function here is total
  and structurally recursive (\<open>dec_string\<close> by its measure), and the event
  system's asynchronous part terminates by C16.
  Number::toString is exact for the decimals of at most 15 significant digits
  with a point position in the range the standard writes without an exponent (a
  double keeps 15 digits, so such a decimal prints as itself); elsewhere it is
  \<open>None\<close>. Not modelled: the \<open>className\<close> styling, the font and image imports
  (assets are opaque constructors), and the network and the server, whose answer
  is an arbitrary \<open>fetch_outcome\<close> (only the server's reading of the query is
  modelled).
  A crash of the render unmounts the tree in React; \<open>app_step\<close> still accepts
  events after it (an over-approximation: every state property proved for the
  reachable states then also covers states React would never reach, and the
  render of every state is given by C20).
  The URL parser is modelled on the query only: the scheme, host and path of the
  literal contain no \<open>?\<close> or \<open>#\<close>, and non-ASCII text is taken byte by byte.
\<close>

text \<open>
  C3: in every reachable state of the component the render shows exactly one of the
  three displays: the error message, the weather panel or the prompt; never a
  result next to an error.
\<close>

theorem reach_render_exactly_one:
  "app_reach appid a \<Longrightarrow> length (filter id (shown (render (ui a)))) = 1"
proof -
  assume "app_reach appid a"
  then have "ui_inv (ui a)" using app_reach_inv by (simp add: app_inv_def)
  then show ?thesis by (cases "weatherData (ui a)") (auto simp: ui_inv_def render_def shown_def)
qed

theorem reach_render_exactly_one_witness:
  "app_reach None app_init \<and> length (filter id (shown (render (ui app_init)))) = 1"
  using reach_render_exactly_one [OF app_reach.init [of None]] by (simp add: app_reach.init)

text \<open>
  C12: a response with a status outside 200--299 (the specification's 404 for
  Nowhereistan) leaves no result and the error "City not found", whatever its body.
\<close>

theorem nowhereistan_scenario:
  "\<not> response_ok st \<Longrightarrow>
   search (\<lambda>url. HttpResponse st b) appid ''Nowhereistan'' s
   = s\<lparr>weatherData := WFalse, error := ''City not found''\<rparr>"
  by (simp add: search_def search_request_def search_settle_def search_body_def)

theorem nowhereistan_scenario_witness:
  "\<not> response_ok 404 \<and>
   search (\<lambda>url. HttpResponse 404 None) None ''Nowhereistan'' weather_init
   = weather_init\<lparr>weatherData := WFalse, error := ''City not found''\<rparr>"
proof -
  have n: "\<not> response_ok 404" by (simp add: response_ok_def)
  show ?thesis using n nowhereistan_scenario [OF n, of None None weather_init] by simp
qed

end
